theory Spec2Isabelle
  imports Main
begin

section \<open>Entitlement store, chat/ask handler and payment webhook of realestateGPT\<close>

text \<open>
  The development embeds two request handlers of the repository:
  \<^item> the chat/ask route (\<^verbatim>\<open>cherif-ai-bot/api/ask.js\<close>, held in \<^verbatim>\<open>src/voice.js\<close>
    lines 47--260): quota reconciliation, admission, document context, inference call,
    quota decrement and chat persistence;
  \<^item> the payment webhook (\<^verbatim>\<open>src/unnamed/part_000\<close>, and its longer variant
    \<^verbatim>\<open>src/cherif-ai-bot/data/uploads/1757233369431_29350_0__index.js\<close>): signature
    verification, de-duplication by event id and the plan updates.

  Both are asynchronous JavaScript functions whose effects are calls to external
  services (Firestore, S3, the inference API, Stripe). The embedding passes the state of
  these services explicitly (record \<open>world\<close>) and takes the outcome of every external
  call from an environment record: a call either returns normally or throws, and a
  thrown value is the text the handler would print for it. Wall-clock readings
  (\<^verbatim>\<open>new Date()\<close>) are fields of the environment as well, one per reading.

  Conventions.
  \<^item> A timestamp is the millisecond count of a JavaScript \<^verbatim>\<open>Date\<close>.
  \<^item> A JavaScript string is a \<open>string\<close>; \<open>length\<close> and \<open>take\<close> stand for
    \<^verbatim>\<open>.length\<close> and \<^verbatim>\<open>.slice(0, n)\<close>.
  \<^item> An optional field is an \<open>option\<close>; \<open>None\<close> is \<^verbatim>\<open>undefined\<close> or
    \<^verbatim>\<open>null\<close>.
  \<^item> Quotas and the configured weekly limit are integers (\<^verbatim>\<open>parseInt\<close> returning
    \<^verbatim>\<open>NaN\<close> is outside the model).
  \<^item> Document ids are single path segments.
  \<^item> The fields of a file's metadata in the request body are strings or absent.
\<close>

subsection \<open>JavaScript helpers\<close>

type_synonym timestamp = int

text \<open>Truthiness of an optional string: \<^verbatim>\<open>undefined\<close>, \<^verbatim>\<open>null\<close> and \<^verbatim>\<open>''\<close> are falsy.\<close>

definition truthy :: "string option \<Rightarrow> bool" where
  "truthy v = (case v of None \<Rightarrow> False | Some s \<Rightarrow> s \<noteq> [])"

text \<open>\<^verbatim>\<open>a || b\<close> on optional strings.\<close>

definition js_or :: "string option \<Rightarrow> string option \<Rightarrow> string option" where
  "js_or a b = (if truthy a then a else b)"

text \<open>\<^verbatim>\<open>a || null\<close>: a falsy value becomes \<^verbatim>\<open>null\<close>.\<close>

definition or_null :: "string option \<Rightarrow> string option" where
  "or_null a = (if truthy a then a else None)"

definition nl :: string where
  "nl = [CHR 0x0A]"

text \<open>The character U+2026 of the chat title, as its UTF-8 bytes.\<close>

definition ellipsis :: string where
  "ellipsis = [CHR 0xE2, CHR 0x80, CHR 0xA6]"

text \<open>\<^verbatim>\<open>toLowerCase\<close>, on the ASCII letters (the only ones the extension test compares).\<close>

definition lower_char :: "char \<Rightarrow> char" where
  "lower_char c =
     (let n = (of_char c :: nat) in if 65 \<le> n \<and> n \<le> 90 then char_of (n + 32) else c)"

definition toLowerCase :: "string \<Rightarrow> string" where
  "toLowerCase s = map lower_char s"

text \<open>\<^verbatim>\<open>s.split('.').pop()\<close>: the part after the last dot, the whole string without one.\<close>

definition split_pop :: "string \<Rightarrow> string" where
  "split_pop s = rev (takeWhile (\<lambda>c. c \<noteq> CHR ''.'') (rev s))"

subsection \<open>The document store\<close>

text \<open>
  The value of a \<^verbatim>\<open>plan\<close> field: a string, or a value that is not a string (the
  webhook can hand the store a member inherited from \<^verbatim>\<open>Object.prototype\<close>, see
  \<open>plan_of_price\<close> below). The chat/ask route only compares the plan with the string
  \<^verbatim>\<open>'NONE'\<close>.
\<close>

datatype plan_value = PlanName string | NotAString

text \<open>
  A document of collection \<^verbatim>\<open>users\<close>. The fields of the nested \<^verbatim>\<open>stripe\<close> map
  are flattened; \<^verbatim>\<open>set(..., { merge: true })\<close> overwrites the fields it names, those of
  a nested map included, and keeps the others.
\<close>

record user_doc =
  plan :: "plan_value option"
  quota :: "int option"
  quota_reset_at :: "timestamp option"
  stripe_customerId :: "string option"
  stripe_subscriptionId :: "string option"
  stripe_priceId :: "string option"
  stripe_status :: "string option"
  stripe_lastCheckoutSessionId :: "string option"
  updatedAt :: "timestamp option"

definition empty_doc :: user_doc where
  "empty_doc = \<lparr> plan = None, quota = None, quota_reset_at = None,
     stripe_customerId = None, stripe_subscriptionId = None, stripe_priceId = None,
     stripe_status = None, stripe_lastCheckoutSessionId = None, updatedAt = None \<rparr>"

text \<open>A chat message and a document of sub-collection \<^verbatim>\<open>users/{uid}/chats\<close>.\<close>

record message =
  role :: string
  content :: string
  ts :: timestamp

record chat_doc =
  title :: "string option"
  html :: "string option"
  chat_updatedAt :: "timestamp option"
  messages :: "message list"

definition empty_chat :: chat_doc where
  "empty_chat = \<lparr> title = None, html = None, chat_updatedAt = None, messages = [] \<rparr>"

text \<open>Documents of \<^verbatim>\<open>stripe_events\<close> and \<^verbatim>\<open>stripeCustomers\<close>.\<close>

record event_record =
  er_type :: string
  er_created :: int
  er_receivedAt :: timestamp

record customer_doc =
  cd_uid :: "string option"

text \<open>
  The state of the external services: the four collections, and the calls received so
  far by the inference API, by S3 and by Stripe's session endpoint (oldest first).
\<close>

record world =
  users :: "string \<rightharpoonup> user_doc"
  chats :: "(string \<times> string) \<rightharpoonup> chat_doc"
  stripe_events :: "string \<rightharpoonup> event_record"
  stripeCustomers :: "string \<rightharpoonup> customer_doc"
  openai_calls :: "string list"
  s3_reads :: "string list"
  stripe_retrievals :: "string list"

text \<open>The current fields of a document, none when it does not exist (the base of a merge).\<close>

definition doc_or_empty :: "user_doc option \<Rightarrow> user_doc" where
  "doc_or_empty d = (case d of None \<Rightarrow> empty_doc | Some x \<Rightarrow> x)"

text \<open>\<^verbatim>\<open>FieldValue.arrayUnion\<close>: appends the elements that are not in the array yet.\<close>

fun arrayUnion :: "'a list \<Rightarrow> 'a list \<Rightarrow> 'a list" where
  "arrayUnion xs [] = xs"
| "arrayUnion xs (y # ys) = (if y \<in> set xs then arrayUnion xs ys else arrayUnion (xs @ [y]) ys)"

subsection \<open>The chat/ask route: requests, responses, environment\<close>

record file_meta =
  fm_name :: "string option"
  fm_filename :: "string option"
  fm_s3Key :: "string option"
  fm_key :: "string option"
  fm_path :: "string option"
  fm_ext :: "string option"

text \<open>
  The request: \<open>question = None\<close> when the body has no string there, \<open>files = None\<close>
  when the body's \<^verbatim>\<open>files\<close> is not an array.
\<close>

record ask_request =
  rq_method :: string
  x_user_id :: "string option"
  question :: "string option"
  chatId :: "string option"
  files :: "file_meta list option"

datatype quota_out = Remaining int | Unlimited

datatype ask_body =
    Error string
  | ErrorDetail string string
  | ErrorReset string timestamp
  | Answer string quota_out timestamp string

type_synonym ask_response = "nat \<times> ask_body"

text \<open>
  The environment of one run of the route. A field \<open>*_err\<close> is \<open>Some e\<close> when the call
  throws \<open>e\<close>; a function into a sum returns \<open>Inl e\<close> when the call throws \<open>e\<close>.
\<close>

record ask_env =
  FREE_WEEKLY_LIMIT :: int
  S3_BUCKET :: "string option"
  now_check :: timestamp
  now_reset :: timestamp
  now_user_ts :: timestamp
  now_assistant_ts :: timestamp
  chat_add_time :: timestamp
  chat_set_time :: timestamp
  user_get_err :: "string option"
  reset_set_err :: "string option"
  getS3ObjectBuffer :: "string \<Rightarrow> string + string"
  utf8_toString :: "string \<Rightarrow> string"
  pdfParse :: "string \<Rightarrow> string + string option"
  extractRawText :: "string \<Rightarrow> string + string option"
  chat_completions_create :: "string \<Rightarrow> string + string option"
  quota_set_err :: "string option"
  chats_add :: "string + string"
  chat_set_err :: "string option"

subsection \<open>The chat/ask route: the handler\<close>

text \<open>\<^verbatim>\<open>getResetDate\<close>: the clock reading with its UTC day of month advanced by 7.\<close>

definition getResetDate :: "timestamp \<Rightarrow> timestamp" where
  "getResetDate now = now + 7 * 86400000"

text \<open>
  Lines 139--147: the document is read, and \<open>plan\<close> and \<open>quota\<close> take their defaults
  where the document has no such field.
\<close>

definition load_entitlement ::
  "ask_env \<Rightarrow> string \<Rightarrow> world \<Rightarrow> string + (plan_value \<times> int \<times> timestamp option)" where
  "load_entitlement env uid w =
     (case user_get_err env of
        Some e \<Rightarrow> Inl e
      | None \<Rightarrow>
          (let d = doc_or_empty (users w uid) in
           Inr (case plan d of None \<Rightarrow> PlanName ''NONE'' | Some p \<Rightarrow> p,
                case quota d of None \<Rightarrow> FREE_WEEKLY_LIMIT env | Some q \<Rightarrow> q,
                quota_reset_at d)))"

text \<open>Whether the window has expired: \<^verbatim>\<open>!resetAt || resetAt < new Date()\<close>.\<close>

definition window_expired :: "ask_env \<Rightarrow> timestamp option \<Rightarrow> bool" where
  "window_expired env resetAt = (case resetAt of None \<Rightarrow> True | Some t \<Rightarrow> t < now_check env)"

text \<open>
  Lines 149--153: the reset of an expired window, written with merge. The result is the
  pair of \<open>quota\<close> and \<open>resetAt\<close> the handler goes on with.
\<close>

definition reconcile ::
  "ask_env \<Rightarrow> string \<Rightarrow> int \<Rightarrow> timestamp option \<Rightarrow> world \<Rightarrow> world \<times> (string + (int \<times> timestamp))" where
  "reconcile env uid q resetAt w =
     (case (if window_expired env resetAt then None else resetAt) of
        None \<Rightarrow>
          (let q' = FREE_WEEKLY_LIMIT env; resetAt' = getResetDate (now_reset env) in
           case reset_set_err env of
             Some e \<Rightarrow> (w, Inl e)
           | None \<Rightarrow>
               (w\<lparr>users := (users w)(uid \<mapsto>
                    (doc_or_empty (users w uid))\<lparr>quota := Some q', quota_reset_at := Some resetAt'\<rparr>)\<rparr>,
                Inr (q', resetAt')))
      | Some t \<Rightarrow> (w, Inr (q, t)))"

text \<open>
  Lines 169--171 and 174: title, storage key and extension of one file. Each \<^verbatim>\<open>||\<close>
  passes over an empty string as it passes over an absent field:
  \<^verbatim>\<open>name || filename || 'Untitled'\<close> and \<^verbatim>\<open>s3Key || key || path || fileTitle\<close>.
\<close>

definition fileTitle :: "file_meta \<Rightarrow> string" where
  "fileTitle fm =
     (if truthy (fm_name fm) then (case fm_name fm of Some t \<Rightarrow> t | None \<Rightarrow> [])
      else if truthy (fm_filename fm) then (case fm_filename fm of Some t \<Rightarrow> t | None \<Rightarrow> [])
      else ''Untitled'')"

definition s3Key :: "file_meta \<Rightarrow> string" where
  "s3Key fm =
     (if truthy (fm_s3Key fm) then (case fm_s3Key fm of Some k \<Rightarrow> k | None \<Rightarrow> [])
      else if truthy (fm_key fm) then (case fm_key fm of Some k \<Rightarrow> k | None \<Rightarrow> [])
      else if truthy (fm_path fm) then (case fm_path fm of Some k \<Rightarrow> k | None \<Rightarrow> [])
      else fileTitle fm)"

text \<open>
  \<^verbatim>\<open>(ext || fileTitle.split('.').pop() || '').toLowerCase()\<close>: the title is never
  empty, the part after its last dot can be.
\<close>

definition file_ext :: "file_meta \<Rightarrow> string" where
  "file_ext fm =
     toLowerCase (if truthy (fm_ext fm) then (case fm_ext fm of Some e \<Rightarrow> e | None \<Rightarrow> [])
                  else split_pop (fileTitle fm))"

definition error_marker :: "string \<Rightarrow> string" where
  "error_marker e = ''[Error reading file or file not found in S3: '' @ e @ '']''"

definition not_supported :: string where
  "not_supported = ''[File type not supported for reading]''"

text \<open>
  Lines 173--192: the text of one file. The object is fetched first; whatever is thrown
  inside the \<^verbatim>\<open>try\<close> becomes the error marker.
\<close>

definition fileText :: "ask_env \<Rightarrow> file_meta \<Rightarrow> string" where
  "fileText env fm =
     (let ext = file_ext fm in
      case getS3ObjectBuffer env (s3Key fm) of
        Inl e \<Rightarrow> error_marker e
      | Inr buffer \<Rightarrow>
          if ext = ''txt'' then take 4000 (utf8_toString env buffer)
          else if ext = ''pdf'' then
            (case pdfParse env buffer of
               Inl e \<Rightarrow> error_marker e
             | Inr t \<Rightarrow> take 4000 (case t of None \<Rightarrow> [] | Some x \<Rightarrow> x))
          else if ext = ''docx'' \<or> ext = ''doc'' then
            (case extractRawText env buffer of
               Inl e \<Rightarrow> error_marker e
             | Inr t \<Rightarrow> take 4000 (case t of None \<Rightarrow> [] | Some x \<Rightarrow> x))
          else not_supported)"

text \<open>Line 194: what one file adds to \<^verbatim>\<open>fileTextSummary\<close>.\<close>

definition file_section :: "ask_env \<Rightarrow> file_meta \<Rightarrow> string" where
  "file_section env fm =
     nl @ ''---'' @ nl @ ''File: '' @ fileTitle fm @ nl @ fileText env fm @ nl"

text \<open>The loop of lines 167--195 over the files it is given.\<close>

fun summarize :: "ask_env \<Rightarrow> file_meta list \<Rightarrow> string \<Rightarrow> string" where
  "summarize env [] acc = acc"
| "summarize env (fm # fms) acc = summarize env fms (acc @ file_section env fm)"

text \<open>Lines 165--196: the files read (at most the first three) and the summary.\<close>

definition files_read :: "ask_env \<Rightarrow> ask_request \<Rightarrow> file_meta list" where
  "files_read env req =
     (case files req of
        None \<Rightarrow> []
      | Some fs \<Rightarrow> if length fs > 0 \<and> truthy (S3_BUCKET env) then take 3 fs else [])"

definition fileTextSummary :: "ask_env \<Rightarrow> ask_request \<Rightarrow> string" where
  "fileTextSummary env req = summarize env (files_read env req) []"

text \<open>Lines 200--202.\<close>

definition prompt :: "ask_env \<Rightarrow> ask_request \<Rightarrow> string \<Rightarrow> string" where
  "prompt env req qn =
     (let s = fileTextSummary env req in
      if s \<noteq> [] then
        ''The user has attached the following files. Use their content to answer the question.''
          @ nl @ s @ nl @ ''Question: '' @ qn
      else qn)"

text \<open>Lines 219--222: the decrement, for a free user only.\<close>

definition decrement_quota ::
  "ask_env \<Rightarrow> string \<Rightarrow> plan_value \<Rightarrow> int \<Rightarrow> world \<Rightarrow> world \<times> string option" where
  "decrement_quota env uid pl q w =
     (if pl = PlanName ''NONE'' then
        (case quota_set_err env of
           Some e \<Rightarrow> (w, Some e)
         | None \<Rightarrow>
             (w\<lparr>users := (users w)(uid \<mapsto> (doc_or_empty (users w uid))\<lparr>quota := Some (q - 1)\<rparr>)\<rparr>,
              None))
      else (w, None))"

text \<open>Lines 224--248: the chat document is created when no id was given, then merged.\<close>

definition chatTitle :: "string \<Rightarrow> string" where
  "chatTitle qn = (if length qn > 35 then take 35 qn @ ellipsis else qn)"

definition save_chat ::
  "ask_env \<Rightarrow> string \<Rightarrow> string \<Rightarrow> string option \<Rightarrow> string \<Rightarrow> world \<Rightarrow> world \<times> (string + string)" where
  "save_chat env uid qn cid answer w =
     (case (if truthy cid then (w, Inr (case cid of Some c \<Rightarrow> c | None \<Rightarrow> []))
            else (case chats_add env of
                    Inl e \<Rightarrow> (w, Inl e)
                  | Inr new_id \<Rightarrow>
                      (w\<lparr>chats := (chats w)((uid, new_id) \<mapsto>
                           \<lparr> title = Some (chatTitle qn), html = Some [],
                             chat_updatedAt = Some (chat_add_time env), messages = [] \<rparr>)\<rparr>,
                       Inr new_id))) of
        (w1, Inl e) \<Rightarrow> (w1, Inl e)
      | (w1, Inr chatDocId) \<Rightarrow>
          (case chat_set_err env of
             Some e \<Rightarrow> (w1, Inl e)
           | None \<Rightarrow>
               (let old = (case chats w1 (uid, chatDocId) of None \<Rightarrow> empty_chat | Some c \<Rightarrow> c) in
                (w1\<lparr>chats := (chats w1)((uid, chatDocId) \<mapsto>
                     old\<lparr> title := Some (chatTitle qn),
                          chat_updatedAt := Some (chat_set_time env),
                          messages := arrayUnion (messages old)
                            [\<lparr> role = ''user'', content = qn, ts = now_user_ts env \<rparr>,
                             \<lparr> role = ''assistant'', content = answer, ts = now_assistant_ts env \<rparr>] \<rparr>)\<rparr>,
                 Inr chatDocId))))"

text \<open>
  Lines 219--255, after a successful inference call: decrement, chat, response. A thrown
  value leaves through \<open>Inl\<close> to the outer \<^verbatim>\<open>catch\<close>.
\<close>

definition after_inference ::
  "ask_env \<Rightarrow> string \<Rightarrow> ask_request \<Rightarrow> string \<Rightarrow> plan_value \<Rightarrow> int \<Rightarrow> timestamp \<Rightarrow> string \<Rightarrow> world
     \<Rightarrow> world \<times> (string + ask_response)" where
  "after_inference env uid req qn pl q resetAt answer w =
     (case decrement_quota env uid pl q w of
        (w1, Some e) \<Rightarrow> (w1, Inl e)
      | (w1, None) \<Rightarrow>
          (case save_chat env uid qn (chatId req) answer w1 of
             (w2, Inl e) \<Rightarrow> (w2, Inl e)
           | (w2, Inr chatDocId) \<Rightarrow>
               (w2, Inr (200, Answer answer (if pl = PlanName ''NONE'' then Remaining (q - 1) else Unlimited)
                                resetAt chatDocId))))"

text \<open>
  Lines 159--217 and on: validation of the body, document context, inference call. The
  S3 reads and the prompt sent are recorded in the world.
\<close>

definition after_gate ::
  "ask_env \<Rightarrow> string \<Rightarrow> ask_request \<Rightarrow> plan_value \<Rightarrow> int \<Rightarrow> timestamp \<Rightarrow> world
     \<Rightarrow> world \<times> (string + ask_response)" where
  "after_gate env uid req pl q resetAt w =
     (if \<not> truthy (question req) then (w, Inr (400, Error ''No question''))
      else
        (let qn = (case question req of Some s \<Rightarrow> s | None \<Rightarrow> []);
             w1 = w\<lparr>s3_reads := s3_reads w @ map s3Key (files_read env req)\<rparr>;
             p = prompt env req qn;
             w2 = w1\<lparr>openai_calls := openai_calls w1 @ [p]\<rparr>
         in case chat_completions_create env p of
              Inl e \<Rightarrow> (w2, Inr (500, ErrorDetail ''OpenAI error'' e))
            | Inr c \<Rightarrow>
                after_inference env uid req qn pl q resetAt
                  (case c of None \<Rightarrow> [] | Some a \<Rightarrow> a) w2))"

text \<open>Lines 138--255: the body of the outer \<^verbatim>\<open>try\<close>.\<close>

definition handler_try ::
  "ask_env \<Rightarrow> string \<Rightarrow> ask_request \<Rightarrow> world \<Rightarrow> world \<times> (string + ask_response)" where
  "handler_try env uid req w =
     (case load_entitlement env uid w of
        Inl e \<Rightarrow> (w, Inl e)
      | Inr (pl, q0, resetAt0) \<Rightarrow>
          (case reconcile env uid q0 resetAt0 w of
             (w1, Inl e) \<Rightarrow> (w1, Inl e)
           | (w1, Inr (q, resetAt)) \<Rightarrow>
               if pl = PlanName ''NONE'' \<and> q \<le> 0
               then (w1, Inr (402, ErrorReset ''Free Weekly Limit Reached'' resetAt))
               else after_gate env uid req pl q resetAt w1))"

text \<open>Lines 131--260: the exported handler.\<close>

definition handler :: "ask_env \<Rightarrow> ask_request \<Rightarrow> world \<Rightarrow> world \<times> ask_response" where
  "handler env req w =
     (if rq_method req \<noteq> ''POST'' then (w, (405, Error ''Method not allowed''))
      else if \<not> truthy (x_user_id req) then (w, (401, Error ''Missing user''))
      else
        (let uid = (case x_user_id req of Some u \<Rightarrow> u | None \<Rightarrow> []) in
         case handler_try env uid req w of
           (w', Inl err) \<Rightarrow> (w', (500, ErrorDetail ''Server error'' err))
         | (w', Inr r) \<Rightarrow> (w', r)))"

subsection \<open>The payment webhook: events, responses, environment\<close>

text \<open>
  What the handler reads of a verified event. The object of an event has the shape its
  type announces; \<open>OtherEvent t\<close> is an event of any type \<open>t\<close> the \<^verbatim>\<open>switch\<close> has no
  case for (in the longer variant the two \<^verbatim>\<open>invoice.*\<close> cases, which only
  \<^verbatim>\<open>break\<close>, are among them).
\<close>

record checkout_session =
  s_id :: string
  client_reference_id :: "string option"
  customer :: "string option"
  subscription :: "string option"

text \<open>
  Of the session retrieved with its expansions: \<^verbatim>\<open>full?.line_items?.data?.[0]?.price?.id\<close>
  and \<^verbatim>\<open>full?.subscription?.id\<close>.
\<close>

record retrieved_session =
  line_item_price_id :: "string option"
  full_subscription_id :: "string option"

text \<open>
  Of a subscription: \<^verbatim>\<open>sub.items?.data?.[0]?.price?.id\<close> and \<^verbatim>\<open>sub.plan?.id\<close> are
  the two optional price fields.
\<close>

record subscription_obj =
  sub_id :: string
  sub_customer :: string
  sub_status :: string
  sub_item_price_id :: "string option"
  sub_plan_id :: "string option"

datatype event_data =
    CheckoutSessionCompleted checkout_session
  | SubscriptionUpdated subscription_obj
  | SubscriptionDeleted subscription_obj
  | OtherEvent string

record event =
  ev_id :: string
  ev_created :: int
  ev_data :: event_data

definition event_type :: "event \<Rightarrow> string" where
  "event_type ev =
     (case ev_data ev of
        CheckoutSessionCompleted _ \<Rightarrow> ''checkout.session.completed''
      | SubscriptionUpdated _ \<Rightarrow> ''customer.subscription.updated''
      | SubscriptionDeleted _ \<Rightarrow> ''customer.subscription.deleted''
      | OtherEvent t \<Rightarrow> t)"

record webhook_request =
  raw_body :: string
  stripe_signature :: "string option"

text \<open>
  The responses: \<^verbatim>\<open>res.send(text)\<close>, \<^verbatim>\<open>res.json({ received: true })\<close> and
  \<^verbatim>\<open>res.json({ received: true, duplicate: true })\<close>.
\<close>

datatype webhook_body = Send string | Received | ReceivedDuplicate

type_synonym webhook_response = "nat \<times> webhook_body"

text \<open>
  The environment of one delivery. \<open>constructEvent\<close> is Stripe's verification of the raw
  body against the signature header under the configured secret: \<open>Inl msg\<close> when it
  throws an error with message \<open>msg\<close>, the verified event otherwise.
  \<open>plan_encode_err\<close> is what the store's client throws, if anything, when it is handed a
  document whose plan is not a string.
\<close>

record webhook_env =
  constructEvent :: "string \<Rightarrow> string option \<Rightarrow> string + event"
  seen_get_err :: "string option"
  seen_set_err :: "string option"
  receivedAt_time :: timestamp
  sessions_retrieve :: "string \<Rightarrow> string + retrieved_session"
  customer_set_err :: "string option"
  customer_get_err :: "string option"
  user_set_err :: "string option"
  plan_encode_err :: "string option"
  updatedAt_time :: timestamp

subsection \<open>The payment webhook: the handler\<close>

text \<open>
  Lines 39--47: the de-duplication. The result is \<open>True\<close> when the handler returns the
  duplicate acknowledgment. Whatever the \<^verbatim>\<open>try\<close> block throws is swallowed by the empty
  \<^verbatim>\<open>catch\<close> (the longer variant logs a warning there), and the handler goes on.
\<close>

definition dedupe :: "webhook_env \<Rightarrow> event \<Rightarrow> world \<Rightarrow> world \<times> bool" where
  "dedupe env ev w =
     (case seen_get_err env of
        Some e \<Rightarrow> (w, False)
      | None \<Rightarrow>
          (case stripe_events w (ev_id ev) of
             Some seen \<Rightarrow> (w, True)
           | None \<Rightarrow>
               (case seen_set_err env of
                  Some e \<Rightarrow> (w, False)
                | None \<Rightarrow>
                    (w\<lparr>stripe_events := (stripe_events w)(ev_id ev \<mapsto>
                         \<lparr> er_type = event_type ev, er_created = ev_created ev,
                           er_receivedAt = receivedAt_time env \<rparr>)\<rparr>,
                     False))))"

text \<open>
  The table \<^verbatim>\<open>PRICE_TO_PLAN\<close> is an object literal without entries in both cases of both
  files, and \<^verbatim>\<open>PRICE_TO_PLAN[priceId] || "Pro"\<close> looks the price id up as a property
  name (\<^verbatim>\<open>null\<close> is the name \<^verbatim>\<open>"null"\<close>). An object literal inherits the members of
  \<^verbatim>\<open>Object.prototype\<close>: for their names the lookup yields a function (for
  \<^verbatim>\<open>__proto__\<close> the prototype object), which is truthy and not a string, and that
  value becomes the plan.
\<close>

definition PRICE_TO_PLAN :: "string \<rightharpoonup> string" where
  "PRICE_TO_PLAN = Map.empty"

definition Object_prototype_names :: "string list" where
  "Object_prototype_names =
     [''constructor'', ''__defineGetter__'', ''__defineSetter__'', ''hasOwnProperty'',
      ''__lookupGetter__'', ''__lookupSetter__'', ''isPrototypeOf'', ''propertyIsEnumerable'',
      ''toString'', ''valueOf'', ''__proto__'', ''toLocaleString'']"

definition property_name :: "string option \<Rightarrow> string" where
  "property_name priceId = (case priceId of None \<Rightarrow> ''null'' | Some p \<Rightarrow> p)"

definition plan_of_price :: "string option \<Rightarrow> plan_value" where
  "plan_of_price priceId =
     (let k = property_name priceId in
      case PRICE_TO_PLAN k of
        Some p \<Rightarrow> if p \<noteq> [] then PlanName p else PlanName ''Pro''
      | None \<Rightarrow> if k \<in> set Object_prototype_names then NotAString else PlanName ''Pro'')"

text \<open>
  What \<^verbatim>\<open>db.collection("users").doc(uid).set(...)\<close> throws, if anything, for a document
  with the given plan: the client's refusal of a plan that is not a string, or the
  failure of the write.
\<close>

definition user_set_throws :: "webhook_env \<Rightarrow> plan_value \<Rightarrow> string option" where
  "user_set_throws env pl =
     (case pl of
        PlanName n \<Rightarrow> user_set_err env
      | NotAString \<Rightarrow>
          (case plan_encode_err env of Some e \<Rightarrow> Some e | None \<Rightarrow> user_set_err env))"

text \<open>The merge write of lines 68--75 (and 99--112 of the longer variant).\<close>

definition checkout_user_write ::
  "webhook_env \<Rightarrow> checkout_session \<Rightarrow> string option \<Rightarrow> string option \<Rightarrow> string option
     \<Rightarrow> user_doc \<Rightarrow> user_doc" where
  "checkout_user_write env s customerId subscriptionId priceId d =
     d\<lparr> plan := Some (plan_of_price priceId),
        stripe_customerId := customerId,
        stripe_subscriptionId := subscriptionId,
        stripe_priceId := priceId,
        stripe_status := Some ''active'',
        stripe_lastCheckoutSessionId := Some (s_id s),
        updatedAt := Some (updatedAt_time env) \<rparr>"

text \<open>
  Lines 51--78, case \<^verbatim>\<open>checkout.session.completed\<close>. The result carries the thrown
  value, if any, for the \<^verbatim>\<open>catch\<close> of line 121.
\<close>

definition checkout_completed ::
  "webhook_env \<Rightarrow> checkout_session \<Rightarrow> world \<Rightarrow> world \<times> string option" where
  "checkout_completed env s w =
     (let uid = or_null (client_reference_id s);
          customerId = or_null (customer s);
          w0 = w\<lparr>stripe_retrievals := stripe_retrievals w @ [s_id s]\<rparr>
      in case sessions_retrieve env (s_id s) of
           Inl e \<Rightarrow> (w0, Some e)
         | Inr full \<Rightarrow>
             (let priceId = or_null (line_item_price_id full);
                  subscriptionId = or_null (js_or (full_subscription_id full) (subscription s))
              in case (case customerId of
                         None \<Rightarrow> (w0, None)
                       | Some c \<Rightarrow>
                           (case customer_set_err env of
                              Some e \<Rightarrow> (w0, Some e)
                            | None \<Rightarrow>
                                (w0\<lparr>stripeCustomers := (stripeCustomers w0)(c \<mapsto> \<lparr> cd_uid = uid \<rparr>)\<rparr>,
                                 None))) of
                   (w1, Some e) \<Rightarrow> (w1, Some e)
                 | (w1, None) \<Rightarrow>
                     (case uid of
                        None \<Rightarrow> (w1, None)
                      | Some u \<Rightarrow>
                          (case user_set_throws env (plan_of_price priceId) of
                             Some e \<Rightarrow> (w1, Some e)
                           | None \<Rightarrow>
                               (w1\<lparr>users := (users w1)(u \<mapsto>
                                    checkout_user_write env s customerId subscriptionId priceId
                                      (doc_or_empty (users w1 u)))\<rparr>,
                                None)))))"

text \<open>
  The same case in the longer variant (lines 64--115): without a
  \<^verbatim>\<open>client_reference_id\<close> it leaves before the index is written.
\<close>

definition checkout_completed_uploads ::
  "webhook_env \<Rightarrow> checkout_session \<Rightarrow> world \<Rightarrow> world \<times> string option" where
  "checkout_completed_uploads env s w =
     (let uid = or_null (client_reference_id s);
          customerId = or_null (customer s);
          w0 = w\<lparr>stripe_retrievals := stripe_retrievals w @ [s_id s]\<rparr>
      in case sessions_retrieve env (s_id s) of
           Inl e \<Rightarrow> (w0, Some e)
         | Inr full \<Rightarrow>
             (let priceId = or_null (line_item_price_id full);
                  subscriptionId = or_null (js_or (full_subscription_id full) (subscription s))
              in case uid of
                   None \<Rightarrow> (w0, None)
                 | Some u \<Rightarrow>
                     (case (case customerId of
                              None \<Rightarrow> (w0, None)
                            | Some c \<Rightarrow>
                                (case customer_set_err env of
                                   Some e \<Rightarrow> (w0, Some e)
                                 | None \<Rightarrow>
                                     (w0\<lparr>stripeCustomers := (stripeCustomers w0)(c \<mapsto> \<lparr> cd_uid = uid \<rparr>)\<rparr>,
                                      None))) of
                        (w1, Some e) \<Rightarrow> (w1, Some e)
                      | (w1, None) \<Rightarrow>
                          (case user_set_throws env (plan_of_price priceId) of
                             Some e \<Rightarrow> (w1, Some e)
                           | None \<Rightarrow>
                               (w1\<lparr>users := (users w1)(u \<mapsto>
                                    checkout_user_write env s customerId subscriptionId priceId
                                      (doc_or_empty (users w1 u)))\<rparr>,
                                None)))))"

text \<open>
  Lines 85--87 and 105--107: the user of a customer, \<open>Inr None\<close> when the index has no
  document for the customer or the document has no truthy \<^verbatim>\<open>uid\<close>.
\<close>

definition lookup_uid :: "webhook_env \<Rightarrow> string \<Rightarrow> world \<Rightarrow> string + string option" where
  "lookup_uid env customerId w =
     (case customer_get_err env of
        Some e \<Rightarrow> Inl e
      | None \<Rightarrow>
          Inr (or_null (case stripeCustomers w customerId of None \<Rightarrow> None | Some d \<Rightarrow> cd_uid d)))"

text \<open>Lines 79--101, case \<^verbatim>\<open>customer.subscription.updated\<close>.\<close>

definition subscription_updated ::
  "webhook_env \<Rightarrow> subscription_obj \<Rightarrow> world \<Rightarrow> world \<times> string option" where
  "subscription_updated env sub w =
     (let priceId = or_null (js_or (sub_item_price_id sub) (sub_plan_id sub));
          st = sub_status sub;
          customerId = sub_customer sub
      in case lookup_uid env customerId w of
           Inl e \<Rightarrow> (w, Some e)
         | Inr None \<Rightarrow> (w, None)
         | Inr (Some uid) \<Rightarrow>
             (let pl = (if st = ''active'' \<or> st = ''trialing'' then plan_of_price priceId
                        else PlanName ''NONE'')
              in case user_set_throws env pl of
                   Some e \<Rightarrow> (w, Some e)
                 | None \<Rightarrow>
                     (w\<lparr>users := (users w)(uid \<mapsto>
                          (doc_or_empty (users w uid))
                            \<lparr> plan := Some pl,
                               stripe_customerId := Some customerId,
                               stripe_subscriptionId := Some (sub_id sub),
                               stripe_priceId := priceId,
                               stripe_status := Some st,
                               updatedAt := Some (updatedAt_time env) \<rparr>)\<rparr>,
                      None)))"

text \<open>Lines 102--118, case \<^verbatim>\<open>customer.subscription.deleted\<close>.\<close>

definition subscription_deleted ::
  "webhook_env \<Rightarrow> subscription_obj \<Rightarrow> world \<Rightarrow> world \<times> string option" where
  "subscription_deleted env sub w =
     (let customerId = sub_customer sub
      in case lookup_uid env customerId w of
           Inl e \<Rightarrow> (w, Some e)
         | Inr None \<Rightarrow> (w, None)
         | Inr (Some uid) \<Rightarrow>
             (case user_set_err env of
                Some e \<Rightarrow> (w, Some e)
              | None \<Rightarrow>
                  (w\<lparr>users := (users w)(uid \<mapsto>
                       (doc_or_empty (users w uid))
                         \<lparr> plan := Some (PlanName ''NONE''),
                            stripe_customerId := Some customerId,
                            stripe_subscriptionId := Some (sub_id sub),
                            stripe_status := Some ''canceled'',
                            updatedAt := Some (updatedAt_time env) \<rparr>)\<rparr>,
                   None)))"

text \<open>Lines 49--120: the \<^verbatim>\<open>switch\<close>, in the two variants.\<close>

definition process_event :: "webhook_env \<Rightarrow> event \<Rightarrow> world \<Rightarrow> world \<times> string option" where
  "process_event env ev w =
     (case ev_data ev of
        CheckoutSessionCompleted s \<Rightarrow> checkout_completed env s w
      | SubscriptionUpdated sub \<Rightarrow> subscription_updated env sub w
      | SubscriptionDeleted sub \<Rightarrow> subscription_deleted env sub w
      | OtherEvent t \<Rightarrow> (w, None))"

definition process_event_uploads :: "webhook_env \<Rightarrow> event \<Rightarrow> world \<Rightarrow> world \<times> string option" where
  "process_event_uploads env ev w =
     (case ev_data ev of
        CheckoutSessionCompleted s \<Rightarrow> checkout_completed_uploads env s w
      | SubscriptionUpdated sub \<Rightarrow> subscription_updated env sub w
      | SubscriptionDeleted sub \<Rightarrow> subscription_deleted env sub w
      | OtherEvent t \<Rightarrow> (w, None))"

text \<open>
  Lines 28--127: the route handler, over the \<^verbatim>\<open>switch\<close> it runs: verification,
  de-duplication, processing, acknowledgment.
\<close>

definition webhook_with ::
  "(webhook_env \<Rightarrow> event \<Rightarrow> world \<Rightarrow> world \<times> string option)
     \<Rightarrow> webhook_env \<Rightarrow> webhook_request \<Rightarrow> world \<Rightarrow> world \<times> webhook_response" where
  "webhook_with process env req w =
     (case constructEvent env (raw_body req) (stripe_signature req) of
        Inl msg \<Rightarrow> (w, (400, Send (''Webhook Error: '' @ msg)))
      | Inr ev \<Rightarrow>
          (case dedupe env ev w of
             (w1, True) \<Rightarrow> (w1, (200, ReceivedDuplicate))
           | (w1, False) \<Rightarrow>
               (case process env ev w1 of
                  (w2, Some e) \<Rightarrow> (w2, (500, Send ''server error''))
                | (w2, None) \<Rightarrow> (w2, (200, Received)))))"

definition webhook :: "webhook_env \<Rightarrow> webhook_request \<Rightarrow> world \<Rightarrow> world \<times> webhook_response" where
  "webhook = webhook_with process_event"

definition webhook_uploads ::
  "webhook_env \<Rightarrow> webhook_request \<Rightarrow> world \<Rightarrow> world \<times> webhook_response" where
  "webhook_uploads = webhook_with process_event_uploads"

subsection \<open>The quota invariant\<close>

text \<open>A stored quota, where the document has one, is not negative.\<close>

definition quota_ok :: "user_doc \<Rightarrow> bool" where
  "quota_ok d = (case quota d of None \<Rightarrow> True | Some q \<Rightarrow> 0 \<le> q)"

subsection \<open>Example inputs\<close>

text \<open>
  A world without documents, an environment in which every call returns normally
  (weekly limit 3, clock at 1000 ms), and a request of user \<open>u1\<close> with a question.
\<close>

definition w0 :: world where
  "w0 = \<lparr> users = Map.empty, chats = Map.empty, stripe_events = Map.empty,
          stripeCustomers = Map.empty, openai_calls = [], s3_reads = [],
          stripe_retrievals = [] \<rparr>"

definition env0 :: ask_env where
  "env0 = \<lparr> FREE_WEEKLY_LIMIT = 3, S3_BUCKET = Some ''bucket'',
            now_check = 1000, now_reset = 1000, now_user_ts = 1002, now_assistant_ts = 1002,
            chat_add_time = 1001, chat_set_time = 1003,
            user_get_err = None, reset_set_err = None,
            getS3ObjectBuffer = (\<lambda>k. if k = ''missing.txt'' then Inl ''NoSuchKey'' else Inr ''hello''),
            utf8_toString = (\<lambda>b. b),
            pdfParse = (\<lambda>b. Inr (Some b)),
            extractRawText = (\<lambda>b. Inr (Some b)),
            chat_completions_create = (\<lambda>p. Inr (Some ''answer'')),
            quota_set_err = None, chats_add = Inr ''c1'', chat_set_err = None \<rparr>"

definition req0 :: ask_request where
  "req0 = \<lparr> rq_method = ''POST'', x_user_id = Some ''u1'', question = Some ''hi'',
            chatId = None, files = None \<rparr>"

text \<open>A user document with the given plan, quota and reset time, and the world holding it for \<open>u1\<close>.\<close>

definition doc_of :: "string \<Rightarrow> int \<Rightarrow> timestamp \<Rightarrow> user_doc" where
  "doc_of pl q t =
     empty_doc\<lparr> plan := Some (PlanName pl), quota := Some q, quota_reset_at := Some t \<rparr>"

definition w_user :: "user_doc \<Rightarrow> world" where
  "w_user d = w0\<lparr> users := [''u1'' \<mapsto> d] \<rparr>"

text \<open>
  The world after a free user with quota 1 has been answered once, and the environment
  of a second request of that user (its chat gets another id).
\<close>

definition w_served :: world where
  "w_served = fst (handler env0 req0 (w_user (doc_of ''NONE'' 1 2000)))"

definition env_second :: ask_env where
  "env_second = env0\<lparr>chats_add := Inr ''c2''\<rparr>"

text \<open>The environment \<open>env0\<close> with the inference API failing.\<close>

definition env_down :: ask_env where
  "env_down = env0\<lparr>chat_completions_create := (\<lambda>p. Inl ''timeout'')\<rparr>"

text \<open>The request \<open>req0\<close> without a question.\<close>

definition req_no_question :: ask_request where
  "req_no_question = req0\<lparr>question := None\<rparr>"





text \<open>
  For the webhook: a checkout session of user \<open>u1\<close> and customer \<open>cus_1\<close>, a
  subscription of that customer, events carrying them, an environment in which every
  call returns normally and verification yields the given event, one in which
  verification throws, a request, and a world whose index maps \<open>cus_1\<close> to \<open>u1\<close>.
\<close>

definition session1 :: checkout_session where
  "session1 = \<lparr> s_id = ''cs_1'', client_reference_id = Some ''u1'', customer = Some ''cus_1'',
                 subscription = Some ''sub_1'' \<rparr>"

definition sub1 :: subscription_obj where
  "sub1 = \<lparr> sub_id = ''sub_1'', sub_customer = ''cus_1'', sub_status = ''active'',
             sub_item_price_id = Some ''price_1'', sub_plan_id = None \<rparr>"

definition ev_checkout :: event where
  "ev_checkout = \<lparr> ev_id = ''evt_1'', ev_created = 10, ev_data = CheckoutSessionCompleted session1 \<rparr>"

definition ev_checkout_anon :: event where
  "ev_checkout_anon = \<lparr> ev_id = ''evt_1'', ev_created = 10,
     ev_data = CheckoutSessionCompleted (session1\<lparr>client_reference_id := None\<rparr>) \<rparr>"

definition ev_updated :: event where
  "ev_updated = \<lparr> ev_id = ''evt_2'', ev_created = 20, ev_data = SubscriptionUpdated sub1 \<rparr>"

definition ev_deleted :: event where
  "ev_deleted = \<lparr> ev_id = ''evt_3'', ev_created = 30, ev_data = SubscriptionDeleted sub1 \<rparr>"

definition wenv :: "event \<Rightarrow> webhook_env" where
  "wenv ev = \<lparr> constructEvent = (\<lambda>b s. Inr ev), seen_get_err = None, seen_set_err = None,
               receivedAt_time = 5000,
               sessions_retrieve = (\<lambda>i. Inr \<lparr> line_item_price_id = Some ''price_1'',
                                               full_subscription_id = Some ''sub_1'' \<rparr>),
               customer_set_err = None, customer_get_err = None, user_set_err = None,
               plan_encode_err = None, updatedAt_time = 5001 \<rparr>"

definition wenv_bad :: "string \<Rightarrow> webhook_env" where
  "wenv_bad msg = (wenv ev_checkout)\<lparr> constructEvent := (\<lambda>b s. Inl msg) \<rparr>"

definition wreq :: webhook_request where
  "wreq = \<lparr> raw_body = ''{}'', stripe_signature = Some ''t=1,v1=0'' \<rparr>"

definition w_indexed :: world where
  "w_indexed = w0\<lparr> stripeCustomers := [''cus_1'' \<mapsto> \<lparr> cd_uid = Some ''u1'' \<rparr>] \<rparr>"

text \<open>
  The checkout event without a customer id; a world whose index holds another
  customer; a delivery of the checkout event whose
  session is retrieved with the price id \<^verbatim>\<open>toString\<close>, the store's client refusing
  the plan; the session as retrieved; a redelivery during which the lookup of the
  processed-event record throws; the world after the first delivery of
  \<open>ev_updated\<close>.
\<close>

definition ev_checkout_nocust :: event where
  "ev_checkout_nocust = \<lparr> ev_id = ''evt_1'', ev_created = 10,
     ev_data = CheckoutSessionCompleted (session1\<lparr>customer := None\<rparr>) \<rparr>"

definition wenv_inherited :: webhook_env where
  "wenv_inherited = (wenv ev_checkout)
     \<lparr> sessions_retrieve := (\<lambda>i. Inr \<lparr> line_item_price_id = Some ''toString'',
                                              full_subscription_id = Some ''sub_1'' \<rparr>),
       plan_encode_err := Some ''Cannot encode value'' \<rparr>"

definition w_other :: world where
  "w_other = w0\<lparr> stripeCustomers := [''cus_9'' \<mapsto> \<lparr> cd_uid = Some ''u9'' \<rparr>] \<rparr>"

definition full1 :: retrieved_session where
  "full1 = \<lparr> line_item_price_id = Some ''price_1'', full_subscription_id = Some ''sub_1'' \<rparr>"

definition wenv_retry :: webhook_env where
  "wenv_retry = (wenv ev_updated)\<lparr> seen_get_err := Some ''UNAVAILABLE'', updatedAt_time := 6001 \<rparr>"

definition w_delivered :: world where
  "w_delivered = fst (webhook (wenv ev_updated) wreq w_indexed)"

section \<open>Lemmas on the chat/ask route\<close>

lemmas example_defs = env0_def req0_def w_user_def w0_def doc_of_def empty_doc_def

lemmas ask_defs = handler_def handler_try_def load_entitlement_def reconcile_def
  window_expired_def getResetDate_def after_gate_def after_inference_def decrement_quota_def
  save_chat_def chatTitle_def prompt_def fileTextSummary_def files_read_def
  doc_or_empty_def truthy_def empty_chat_def

subsection \<open>Frame lemmas of the chat/ask route\<close>

lemma decrement_quota_frame:
  "decrement_quota env uid pl q w = (w', r) \<Longrightarrow>
     chats w' = chats w \<and> stripe_events w' = stripe_events w \<and>
     stripeCustomers w' = stripeCustomers w \<and> openai_calls w' = openai_calls w \<and>
     s3_reads w' = s3_reads w \<and> stripe_retrievals w' = stripe_retrievals w"
  by (auto simp: decrement_quota_def split: if_splits option.splits)

lemma decrement_quota_users:
  "decrement_quota env uid pl q w = (w', r) \<Longrightarrow>
     users w' = users w \<or>
     (pl = PlanName ''NONE'' \<and> quota_set_err env = None \<and> r = None \<and>
      users w' = (users w)(uid \<mapsto> (doc_or_empty (users w uid))\<lparr>quota := Some (q - 1)\<rparr>))"
  by (auto simp: decrement_quota_def split: if_splits option.splits)

lemma save_chat_frame:
  "save_chat env uid qn cid a w = (w', r) \<Longrightarrow>
     users w' = users w \<and> stripe_events w' = stripe_events w \<and>
     stripeCustomers w' = stripeCustomers w \<and> openai_calls w' = openai_calls w \<and>
     s3_reads w' = s3_reads w \<and> stripe_retrievals w' = stripe_retrievals w"
  by (auto simp: save_chat_def Let_def split: if_splits option.splits sum.splits prod.splits)

lemma after_inference_frame:
  "after_inference env uid req qn pl q ra a w = (w', r) \<Longrightarrow>
     openai_calls w' = openai_calls w \<and> s3_reads w' = s3_reads w \<and>
     stripe_events w' = stripe_events w \<and> stripeCustomers w' = stripeCustomers w \<and>
     stripe_retrievals w' = stripe_retrievals w"
  unfolding after_inference_def
  by (auto split: prod.splits option.splits sum.splits dest!: decrement_quota_frame save_chat_frame)

lemma after_inference_users:
  "after_inference env uid req qn pl q ra a w = (w', r) \<Longrightarrow>
     users w' = users w \<or>
     (pl = PlanName ''NONE'' \<and> quota_set_err env = None \<and>
      users w' = (users w)(uid \<mapsto> (doc_or_empty (users w uid))\<lparr>quota := Some (q - 1)\<rparr>))"
  unfolding after_inference_def
  by (auto split: prod.splits option.splits sum.splits
           dest!: decrement_quota_users save_chat_frame)

lemma after_inference_status:
  "after_inference env uid req qn pl q ra a w = (w', Inr r) \<Longrightarrow> fst r = 200"
  unfolding after_inference_def
  by (auto split: prod.splits option.splits sum.splits)

lemma after_gate_status:
  "after_gate env uid req pl q ra w = (w', Inr r) \<Longrightarrow> fst r = 400 \<or> fst r = 500 \<or> fst r = 200"
  unfolding after_gate_def Let_def
  by (auto split: if_splits sum.splits dest: after_inference_status)

lemma after_gate_calls:
  "after_gate env uid req pl q ra w = (w', r) \<Longrightarrow> question req = Some qn \<Longrightarrow> qn \<noteq> [] \<Longrightarrow>
     openai_calls w' = openai_calls w @ [prompt env req qn] \<and>
     s3_reads w' = s3_reads w @ map s3Key (files_read env req)"
  unfolding after_gate_def Let_def
  by (auto simp: truthy_def split: if_splits sum.splits dest: after_inference_frame)

lemma after_gate_400:
  "after_gate env uid req pl q ra w = (w', Inr (400, b)) \<Longrightarrow>
     \<not> truthy (question req) \<and> w' = w \<and> b = Error ''No question''"
  unfolding after_gate_def Let_def
  by (auto split: if_splits sum.splits dest: after_inference_status)

lemma after_gate_failure:
  "question req = Some qn \<Longrightarrow> qn \<noteq> [] \<Longrightarrow>
   chat_completions_create env (prompt env req qn) = Inl e \<Longrightarrow>
   after_gate env uid req pl q ra w = (w', r) \<Longrightarrow>
     r = Inr (500, ErrorDetail ''OpenAI error'' e) \<and> users w' = users w \<and> chats w' = chats w"
  unfolding after_gate_def Let_def
  by (auto simp: truthy_def)

lemma after_gate_users:
  "after_gate env uid req pl q ra w = (w', r) \<Longrightarrow>
     users w' = users w \<or>
     (pl = PlanName ''NONE'' \<and> quota_set_err env = None \<and>
      (\<exists>qn c. question req = Some qn \<and> qn \<noteq> [] \<and>
               chat_completions_create env (prompt env req qn) = Inr c) \<and>
      users w' = (users w)(uid \<mapsto> (doc_or_empty (users w uid))\<lparr>quota := Some (q - 1)\<rparr>))"
  unfolding after_gate_def Let_def
  by (auto simp: truthy_def split: if_splits sum.splits option.splits
           dest!: after_inference_users)

lemma after_gate_reset_at:
  assumes "after_gate env uid req pl q ra w = (w', r)"
  shows "quota_reset_at (doc_or_empty (users w' uid)) = quota_reset_at (doc_or_empty (users w uid))"
  using after_gate_users[OF assms] by (auto simp: doc_or_empty_def)

lemma after_gate_success:
  "question req = Some qn \<Longrightarrow> qn \<noteq> [] \<Longrightarrow>
   chat_completions_create env (prompt env req qn) = Inr c \<Longrightarrow>
   quota_set_err env = None \<Longrightarrow>
   after_gate env uid req (PlanName ''NONE'') q ra w = (w', r) \<Longrightarrow>
     users w' = (users w)(uid \<mapsto> (doc_or_empty (users w uid))\<lparr>quota := Some (q - 1)\<rparr>)"
  unfolding after_gate_def Let_def after_inference_def decrement_quota_def
  by (auto simp: truthy_def split: prod.splits sum.splits dest!: save_chat_frame)

lemma reconcile_frame:
  "reconcile env uid q0 r0 w = (w', r) \<Longrightarrow>
     chats w' = chats w \<and> stripe_events w' = stripe_events w \<and>
     stripeCustomers w' = stripeCustomers w \<and> openai_calls w' = openai_calls w \<and>
     s3_reads w' = s3_reads w \<and> stripe_retrievals w' = stripe_retrievals w"
  by (auto simp: reconcile_def Let_def split: if_splits option.splits)

lemma reconcile_expired:
  "window_expired env r0 \<Longrightarrow> reset_set_err env = None \<Longrightarrow>
     reconcile env uid q0 r0 w =
       (w\<lparr>users := (users w)(uid \<mapsto>
            (doc_or_empty (users w uid))\<lparr>quota := Some (FREE_WEEKLY_LIMIT env),
               quota_reset_at := Some (now_reset env + 604800000)\<rparr>)\<rparr>,
        Inr (FREE_WEEKLY_LIMIT env, now_reset env + 604800000))"
  by (simp add: reconcile_def getResetDate_def Let_def)

lemma reconcile_expired_err:
  "window_expired env r0 \<Longrightarrow> reset_set_err env = Some e \<Longrightarrow>
     reconcile env uid q0 r0 w = (w, Inl e)"
  by (simp add: reconcile_def)

text \<open>The handler on a request with the method and the user header in place.\<close>

lemma handler_post:
  "rq_method req = ''POST'' \<Longrightarrow> x_user_id req = Some uid \<Longrightarrow> uid \<noteq> [] \<Longrightarrow>
     handler env req w =
       (case handler_try env uid req w of
          (w', Inl err) \<Rightarrow> (w', (500, ErrorDetail ''Server error'' err))
        | (w', Inr r) \<Rightarrow> (w', r))"
  by (simp add: handler_def truthy_def)

lemma handler_try_gate:
  "load_entitlement env uid w = Inr (pl, q0, r0) \<Longrightarrow>
   reconcile env uid q0 r0 w = (w1, Inr (q, resetAt)) \<Longrightarrow>
     handler_try env uid req w =
       (if pl = PlanName ''NONE'' \<and> q \<le> 0
        then (w1, Inr (402, ErrorReset ''Free Weekly Limit Reached'' resetAt))
        else after_gate env uid req pl q resetAt w1)"
  by (simp add: handler_try_def)

subsection \<open>Lemmas on the document context\<close>






section \<open>The claims about the chat/ask route\<close>

subsection \<open>C1: the admission rule\<close>

text \<open>
  Claim C1. Take a POST request of a user whose entitlement was loaded and reconciled to
  plan \<open>pl\<close>, quota \<open>q\<close> and reset time \<open>resetAt\<close>. The request is rejected
  with status 402 exactly when \<open>pl\<close> is \<^verbatim>\<open>NONE\<close> and \<open>q \<le> 0\<close>: a request with
  plan \<^verbatim>\<open>PRO\<close> (or any plan other than \<^verbatim>\<open>NONE\<close>) is never rejected for quota,
  whatever the quota, and one with plan \<^verbatim>\<open>NONE\<close> passes if and only if \<open>0 < q\<close>. The
  402 response carries the reset time and leaves the world as reconciliation left it,
  with no call to the inference API; a request that passes and has a question reaches
  the inference call.
\<close>

theorem C1_admission_rule:
  assumes post: "rq_method req = ''POST''"
    and uid: "x_user_id req = Some uid" "uid \<noteq> []"
    and load: "load_entitlement env uid w = Inr (pl, q0, r0)"
    and rec: "reconcile env uid q0 r0 w = (w1, Inr (q, resetAt))"
    and run: "handler env req w = (w', resp)"
  shows "(pl = PlanName ''PRO'' \<longrightarrow> fst resp \<noteq> 402) \<and>
         (pl \<noteq> PlanName ''NONE'' \<longrightarrow> fst resp \<noteq> 402) \<and>
         (pl = PlanName ''NONE'' \<longrightarrow> (fst resp \<noteq> 402) = (0 < q)) \<and>
         (fst resp = 402 \<longrightarrow>
            resp = (402, ErrorReset ''Free Weekly Limit Reached'' resetAt) \<and>
            w' = w1 \<and> openai_calls w' = openai_calls w) \<and>
         (fst resp \<noteq> 402 \<longrightarrow> (\<forall>qn. question req = Some qn \<and> qn \<noteq> [] \<longrightarrow>
            openai_calls w' = openai_calls w @ [prompt env req qn]))"
proof (cases "pl = PlanName ''NONE'' \<and> q \<le> 0")
  case True
  have "handler env req w = (w1, (402, ErrorReset ''Free Weekly Limit Reached'' resetAt))"
    using True by (simp add: handler_post[OF post uid] handler_try_gate[OF load rec])
  with run have "w' = w1" "resp = (402, ErrorReset ''Free Weekly Limit Reached'' resetAt)"
    by simp_all
  moreover have "openai_calls w1 = openai_calls w"
    using reconcile_frame[OF rec] by simp
  ultimately show ?thesis using True by auto
next
  case False
  obtain w2 r2 where ag: "after_gate env uid req pl q resetAt w1 = (w2, r2)"
    by (cases "after_gate env uid req pl q resetAt w1")
  have "handler env req w =
      (w2, case r2 of Inl err \<Rightarrow> (500, ErrorDetail ''Server error'' err) | Inr r \<Rightarrow> r)"
    using False ag
    by (auto simp: handler_post[OF post uid] handler_try_gate[OF load rec] split: sum.splits)
  with run have w2: "w' = w2"
    and resp: "resp = (case r2 of Inl err \<Rightarrow> (500, ErrorDetail ''Server error'' err) | Inr r \<Rightarrow> r)"
    by simp_all
  have st: "fst resp \<noteq> 402"
    using resp after_gate_status[of env uid req pl q resetAt w1 w2] ag
    by (cases r2) auto
  have calls: "\<And>qn. question req = Some qn \<Longrightarrow> qn \<noteq> [] \<Longrightarrow>
      openai_calls w' = openai_calls w @ [prompt env req qn]"
    using after_gate_calls[OF ag] reconcile_frame[OF rec] w2 by simp
  show ?thesis using st False calls by auto
qed

text \<open>
  The theorem at a free user without quota inside the window (rejected with 402, no
  inference call) and at a \<^verbatim>\<open>PRO\<close> user without quota (answered).
\<close>

theorem C1_admission_rule_witness:
  "rq_method req0 = ''POST'' \<and> x_user_id req0 = Some ''u1'' \<and>
   load_entitlement env0 ''u1'' (w_user (doc_of ''NONE'' 0 2000)) = Inr (PlanName ''NONE'', 0, Some 2000) \<and>
   reconcile env0 ''u1'' 0 (Some 2000) (w_user (doc_of ''NONE'' 0 2000))
     = (w_user (doc_of ''NONE'' 0 2000), Inr (0, 2000)) \<and>
   snd (handler env0 req0 (w_user (doc_of ''NONE'' 0 2000)))
     = (402, ErrorReset ''Free Weekly Limit Reached'' 2000) \<and>
   openai_calls (fst (handler env0 req0 (w_user (doc_of ''NONE'' 0 2000)))) = [] \<and>
   load_entitlement env0 ''u1'' (w_user (doc_of ''PRO'' 0 2000)) = Inr (PlanName ''PRO'', 0, Some 2000) \<and>
   fst (snd (handler env0 req0 (w_user (doc_of ''PRO'' 0 2000)))) \<noteq> 402 \<and>
   openai_calls (fst (handler env0 req0 (w_user (doc_of ''PRO'' 0 2000)))) = [''hi'']"
proof -
  have h1: "rq_method req0 = ''POST''" and h2: "x_user_id req0 = Some ''u1''"
    and h3: "''u1'' \<noteq> []"
    by (simp_all add: req0_def)
  have l1: "load_entitlement env0 ''u1'' (w_user (doc_of ''NONE'' 0 2000)) = Inr (PlanName ''NONE'', 0, Some 2000)"
    by (simp add: ask_defs example_defs)
  have r1: "reconcile env0 ''u1'' 0 (Some 2000) (w_user (doc_of ''NONE'' 0 2000))
     = (w_user (doc_of ''NONE'' 0 2000), Inr (0, 2000))"
    by (simp add: reconcile_def window_expired_def env0_def)
  have l2: "load_entitlement env0 ''u1'' (w_user (doc_of ''PRO'' 0 2000)) = Inr (PlanName ''PRO'', 0, Some 2000)"
    by (simp add: ask_defs example_defs)
  have r2: "reconcile env0 ''u1'' 0 (Some 2000) (w_user (doc_of ''PRO'' 0 2000))
     = (w_user (doc_of ''PRO'' 0 2000), Inr (0, 2000))"
    by (simp add: reconcile_def window_expired_def env0_def)
  have q: "question req0 = Some ''hi''" "prompt env0 req0 ''hi'' = ''hi''"
    by (simp_all add: req0_def prompt_def fileTextSummary_def files_read_def)
  have e: "openai_calls (w_user (doc_of ''NONE'' 0 2000)) = []"
    "openai_calls (w_user (doc_of ''PRO'' 0 2000)) = []"
    by (simp_all add: w_user_def w0_def)
  note a = C1_admission_rule[OF h1 h2 h3 l1 r1 prod.collapse[symmetric]]
  note b = C1_admission_rule[OF h1 h2 h3 l2 r2 prod.collapse[symmetric]]
  from a have a1: "fst (snd (handler env0 req0 (w_user (doc_of ''NONE'' 0 2000)))) = 402"
    by simp
  from a a1 have a2: "snd (handler env0 req0 (w_user (doc_of ''NONE'' 0 2000)))
     = (402, ErrorReset ''Free Weekly Limit Reached'' 2000)"
    and a3: "openai_calls (fst (handler env0 req0 (w_user (doc_of ''NONE'' 0 2000)))) = []"
    using e by simp_all
  from b have b1: "fst (snd (handler env0 req0 (w_user (doc_of ''PRO'' 0 2000)))) \<noteq> 402"
    by simp
  from b b1 q e have b2: "openai_calls (fst (handler env0 req0 (w_user (doc_of ''PRO'' 0 2000)))) = [''hi'']"
    by simp
  show ?thesis using h1 h2 l1 r1 l2 a2 a3 b1 b2 by simp
qed

subsection \<open>C2: the reset of the quota window\<close>

text \<open>
  Claim C2 as stated resets the quota whenever \<open>now \<ge> quotaResetAt\<close>. The handler
  compares with \<^verbatim>\<open>resetAt < new Date()\<close>: at \<open>now = quotaResetAt\<close> nothing is reset,
  and a free user without quota is still rejected (weekly limit 3). Also, the new reset
  time counts from the clock reading of \<^verbatim>\<open>getResetDate\<close>, a second reading (2005 in
  the last conjunct, the comparison having read 2000).
\<close>

theorem C2_counterexample:
  "reconcile (env0\<lparr>now_check := 2000\<rparr>) ''u1'' 0 (Some 2000) (w_user (doc_of ''NONE'' 0 2000))
     = (w_user (doc_of ''NONE'' 0 2000), Inr (0, 2000)) \<and>
   snd (handler (env0\<lparr>now_check := 2000\<rparr>) req0 (w_user (doc_of ''NONE'' 0 2000)))
     = (402, ErrorReset ''Free Weekly Limit Reached'' 2000) \<and>
   FREE_WEEKLY_LIMIT (env0\<lparr>now_check := 2000\<rparr>) = 3 \<and>
   snd (reconcile (env0\<lparr>now_check := 2000, now_reset := 2005\<rparr>) ''u1'' 0 (Some 1999)
          (w_user (doc_of ''NONE'' 0 1999)))
     = Inr (3, 2005 + 604800000)"
  by (simp add: ask_defs example_defs)

text \<open>
  Claim C2, amended. Take a POST request of a user whose entitlement was loaded with
  quota \<open>q\<close> and reset time \<open>resetAt\<close>. The window has expired when there is no
  reset time or the reset time is strictly before the clock reading of the comparison.
  Then reconciliation sets the quota to \<^verbatim>\<open>FREE_WEEKLY_LIMIT\<close> and the reset time to
  exactly 7 days after the clock reading of \<^verbatim>\<open>getResetDate\<close> and, when the write
  succeeds, stores both in the user document, whatever the plan (\<open>reconcile\<close> does
  not take it); the reset time is still the stored one when the handler has finished.
  When the clock reading is at or before the reset time, reconciliation changes neither
  field and writes nothing, and the stored reset time is the same after the handler.
\<close>

theorem C2_window_reset:
  assumes post: "rq_method req = ''POST''"
    and uid: "x_user_id req = Some uid" "uid \<noteq> []"
    and load: "load_entitlement env uid w = Inr (pl, q, resetAt)"
    and run: "handler env req w = (w', resp)"
  shows "window_expired env resetAt = (resetAt = None \<or> (\<exists>t. resetAt = Some t \<and> t < now_check env)) \<and>
   (window_expired env resetAt \<and> reset_set_err env = None \<longrightarrow>
      reconcile env uid q resetAt w =
        (w\<lparr>users := (users w)(uid \<mapsto>
             (doc_or_empty (users w uid))\<lparr>quota := Some (FREE_WEEKLY_LIMIT env),
                quota_reset_at := Some (now_reset env + 7 * 86400000)\<rparr>)\<rparr>,
         Inr (FREE_WEEKLY_LIMIT env, now_reset env + 7 * 86400000)) \<and>
      quota_reset_at (doc_or_empty (users w' uid)) = Some (now_reset env + 7 * 86400000)) \<and>
   (\<forall>t. resetAt = Some t \<and> now_check env \<le> t \<longrightarrow>
      reconcile env uid q resetAt w = (w, Inr (q, t)) \<and>
      quota_reset_at (doc_or_empty (users w' uid)) = quota_reset_at (doc_or_empty (users w uid)))"
proof -
  have a: "window_expired env resetAt = (resetAt = None \<or> (\<exists>t. resetAt = Some t \<and> t < now_check env))"
    by (auto simp: window_expired_def split: option.splits)
  have step: "\<And>w1 q1 t1. reconcile env uid q resetAt w = (w1, Inr (q1, t1)) \<Longrightarrow>
      quota_reset_at (doc_or_empty (users w' uid)) = quota_reset_at (doc_or_empty (users w1 uid))"
  proof -
    fix w1 q1 t1
    assume rec: "reconcile env uid q resetAt w = (w1, Inr (q1, t1))"
    show "quota_reset_at (doc_or_empty (users w' uid)) = quota_reset_at (doc_or_empty (users w1 uid))"
    proof (cases "pl = PlanName ''NONE'' \<and> q1 \<le> 0")
      case True
      have "handler env req w = (w1, (402, ErrorReset ''Free Weekly Limit Reached'' t1))"
        using True by (simp add: handler_post[OF post uid] handler_try_gate[OF load rec])
      with run show ?thesis by simp
    next
      case False
      obtain w2 r2 where ag: "after_gate env uid req pl q1 t1 w1 = (w2, r2)"
        by (cases "after_gate env uid req pl q1 t1 w1")
      have "handler env req w =
          (w2, case r2 of Inl err \<Rightarrow> (500, ErrorDetail ''Server error'' err) | Inr r \<Rightarrow> r)"
        using False ag
        by (auto simp: handler_post[OF post uid] handler_try_gate[OF load rec] split: sum.splits)
      with run have "w' = w2" by simp
      with after_gate_reset_at[OF ag] show ?thesis by simp
    qed
  qed
  have b: "window_expired env resetAt \<and> reset_set_err env = None \<longrightarrow>
      reconcile env uid q resetAt w =
        (w\<lparr>users := (users w)(uid \<mapsto>
             (doc_or_empty (users w uid))\<lparr>quota := Some (FREE_WEEKLY_LIMIT env),
                quota_reset_at := Some (now_reset env + 7 * 86400000)\<rparr>)\<rparr>,
         Inr (FREE_WEEKLY_LIMIT env, now_reset env + 7 * 86400000)) \<and>
      quota_reset_at (doc_or_empty (users w' uid)) = Some (now_reset env + 7 * 86400000)"
  proof
    assume e: "window_expired env resetAt \<and> reset_set_err env = None"
    then have rec: "reconcile env uid q resetAt w =
        (w\<lparr>users := (users w)(uid \<mapsto>
             (doc_or_empty (users w uid))\<lparr>quota := Some (FREE_WEEKLY_LIMIT env),
                quota_reset_at := Some (now_reset env + 7 * 86400000)\<rparr>)\<rparr>,
         Inr (FREE_WEEKLY_LIMIT env, now_reset env + 7 * 86400000))"
      using reconcile_expired[of env resetAt uid q w] by simp
    from step[OF rec] rec
    show "reconcile env uid q resetAt w =
        (w\<lparr>users := (users w)(uid \<mapsto>
             (doc_or_empty (users w uid))\<lparr>quota := Some (FREE_WEEKLY_LIMIT env),
                quota_reset_at := Some (now_reset env + 7 * 86400000)\<rparr>)\<rparr>,
         Inr (FREE_WEEKLY_LIMIT env, now_reset env + 7 * 86400000)) \<and>
      quota_reset_at (doc_or_empty (users w' uid)) = Some (now_reset env + 7 * 86400000)"
      by (simp add: doc_or_empty_def)
  qed
  have c: "\<forall>t. resetAt = Some t \<and> now_check env \<le> t \<longrightarrow>
      reconcile env uid q resetAt w = (w, Inr (q, t)) \<and>
      quota_reset_at (doc_or_empty (users w' uid)) = quota_reset_at (doc_or_empty (users w uid))"
  proof (intro allI impI)
    fix t assume t: "resetAt = Some t \<and> now_check env \<le> t"
    then have rec: "reconcile env uid q resetAt w = (w, Inr (q, t))"
      by (simp add: reconcile_def window_expired_def)
    from step[OF rec] rec
    show "reconcile env uid q resetAt w = (w, Inr (q, t)) \<and>
      quota_reset_at (doc_or_empty (users w' uid)) = quota_reset_at (doc_or_empty (users w uid))"
      by simp
  qed
  show ?thesis using a b c by blast
qed

text \<open>The theorem one millisecond after the reset time, and at the reset time.\<close>

theorem C2_window_reset_witness:
  "rq_method req0 = ''POST'' \<and> x_user_id req0 = Some ''u1'' \<and>
   load_entitlement env0 ''u1'' (w_user (doc_of ''PRO'' 0 999)) = Inr (PlanName ''PRO'', 0, Some 999) \<and>
   window_expired env0 (Some 999) \<and> reset_set_err env0 = None \<and>
   snd (reconcile env0 ''u1'' 0 (Some 999) (w_user (doc_of ''PRO'' 0 999))) = Inr (3, 604801000) \<and>
   users (fst (reconcile env0 ''u1'' 0 (Some 999) (w_user (doc_of ''PRO'' 0 999)))) ''u1''
     = Some (doc_of ''PRO'' 3 604801000) \<and>
   quota_reset_at (doc_or_empty (users (fst (handler env0 req0 (w_user (doc_of ''PRO'' 0 999)))) ''u1''))
     = Some 604801000 \<and>
   load_entitlement env0 ''u1'' (w_user (doc_of ''PRO'' 0 1000)) = Inr (PlanName ''PRO'', 0, Some 1000) \<and>
   reconcile env0 ''u1'' 0 (Some 1000) (w_user (doc_of ''PRO'' 0 1000))
     = (w_user (doc_of ''PRO'' 0 1000), Inr (0, 1000)) \<and>
   quota_reset_at (doc_or_empty (users (fst (handler env0 req0 (w_user (doc_of ''PRO'' 0 1000)))) ''u1''))
     = Some 1000"
proof -
  let ?w = "w_user (doc_of ''PRO'' 0 999)" and ?v = "w_user (doc_of ''PRO'' 0 1000)"
  have h: "rq_method req0 = ''POST''" "x_user_id req0 = Some ''u1''" "''u1'' \<noteq> []"
    by (simp_all add: req0_def)
  have l: "load_entitlement env0 ''u1'' ?w = Inr (PlanName ''PRO'', 0, Some 999)"
    and m: "load_entitlement env0 ''u1'' ?v = Inr (PlanName ''PRO'', 0, Some 1000)"
    by (simp_all add: ask_defs example_defs)
  have e: "window_expired env0 (Some 999)" "reset_set_err env0 = None" "now_check env0 \<le> 1000"
    by (simp_all add: window_expired_def env0_def)
  have f: "FREE_WEEKLY_LIMIT env0 = 3" "now_reset env0 + 7 * 86400000 = 604801000"
    by (simp_all add: env0_def)
  have g: "quota_reset_at (doc_or_empty (users ?v ''u1'')) = Some 1000"
    by (simp add: example_defs doc_or_empty_def)
  note t = C2_window_reset[OF h l prod.collapse[symmetric]]
  note u = C2_window_reset[OF h m prod.collapse[symmetric]]
  from t e have t1: "reconcile env0 ''u1'' 0 (Some 999) ?w =
        (?w\<lparr>users := (users ?w)(''u1'' \<mapsto>
             (doc_or_empty (users ?w ''u1''))\<lparr>quota := Some (FREE_WEEKLY_LIMIT env0),
                quota_reset_at := Some (now_reset env0 + 7 * 86400000)\<rparr>)\<rparr>,
         Inr (FREE_WEEKLY_LIMIT env0, now_reset env0 + 7 * 86400000))"
    and t2: "quota_reset_at (doc_or_empty (users (fst (handler env0 req0 ?w)) ''u1''))
      = Some (now_reset env0 + 7 * 86400000)"
    by blast+
  from t1 have a: "snd (reconcile env0 ''u1'' 0 (Some 999) ?w) = Inr (3, 604801000)"
    and b: "users (fst (reconcile env0 ''u1'' 0 (Some 999) ?w)) ''u1'' = Some (doc_of ''PRO'' 3 604801000)"
    by (simp_all add: example_defs doc_or_empty_def)
  from u e have c: "reconcile env0 ''u1'' 0 (Some 1000) ?v = (?v, Inr (0, 1000))"
    and d: "quota_reset_at (doc_or_empty (users (fst (handler env0 req0 ?v)) ''u1''))
      = quota_reset_at (doc_or_empty (users ?v ''u1''))"
    by blast+
  show ?thesis using h l m e a b c d t2 f g by simp
qed

subsection \<open>C3: the decrement follows a successful inference call\<close>

text \<open>
  Claim C3. Take a POST request of a user whose entitlement was loaded and reconciled to
  plan \<open>pl\<close> and quota \<open>q\<close>, the world then being \<open>w1\<close>. If the handler leaves the
  \<^verbatim>\<open>users\<close> collection different from \<open>w1\<close>, then the plan is \<^verbatim>\<open>NONE\<close>, the
  inference call was made and returned normally, and the only change is the quota of
  this user, now \<open>q - 1\<close>. When the inference call throws, the response is status 500
  with \<^verbatim>\<open>OpenAI error\<close>, the stored quota is as reconciliation left it, and no chat
  document is written. When the call succeeds for a free user with quota and the write
  succeeds, the stored quota is \<open>q - 1\<close>.
\<close>

theorem C3_decrement_after_success:
  assumes post: "rq_method req = ''POST''"
    and uid: "x_user_id req = Some uid" "uid \<noteq> []"
    and load: "load_entitlement env uid w = Inr (pl, q0, r0)"
    and rec: "reconcile env uid q0 r0 w = (w1, Inr (q, resetAt))"
    and run: "handler env req w = (w', resp)"
  shows "(users w' \<noteq> users w1 \<longrightarrow>
            pl = PlanName ''NONE'' \<and>
            (\<exists>qn c. question req = Some qn \<and> qn \<noteq> [] \<and>
                     chat_completions_create env (prompt env req qn) = Inr c \<and>
                     openai_calls w' = openai_calls w @ [prompt env req qn]) \<and>
            users w' = (users w1)(uid \<mapsto> (doc_or_empty (users w1 uid))\<lparr>quota := Some (q - 1)\<rparr>)) \<and>
         (\<forall>qn e. question req = Some qn \<and> qn \<noteq> [] \<and> \<not> (pl = PlanName ''NONE'' \<and> q \<le> 0) \<and>
                  chat_completions_create env (prompt env req qn) = Inl e \<longrightarrow>
            resp = (500, ErrorDetail ''OpenAI error'' e) \<and>
            users w' = users w1 \<and> chats w' = chats w) \<and>
         (\<forall>qn c. question req = Some qn \<and> qn \<noteq> [] \<and> pl = PlanName ''NONE'' \<and> 0 < q \<and>
                  chat_completions_create env (prompt env req qn) = Inr c \<and>
                  quota_set_err env = None \<longrightarrow>
            users w' = (users w1)(uid \<mapsto> (doc_or_empty (users w1 uid))\<lparr>quota := Some (q - 1)\<rparr>))"
proof (cases "pl = PlanName ''NONE'' \<and> q \<le> 0")
  case True
  have "handler env req w = (w1, (402, ErrorReset ''Free Weekly Limit Reached'' resetAt))"
    using True by (simp add: handler_post[OF post uid] handler_try_gate[OF load rec])
  with run have "w' = w1" by simp
  then show ?thesis using True by auto
next
  case False
  obtain w2 r2 where ag: "after_gate env uid req pl q resetAt w1 = (w2, r2)"
    by (cases "after_gate env uid req pl q resetAt w1")
  have "handler env req w =
      (w2, case r2 of Inl err \<Rightarrow> (500, ErrorDetail ''Server error'' err) | Inr r \<Rightarrow> r)"
    using False ag
    by (auto simp: handler_post[OF post uid] handler_try_gate[OF load rec] split: sum.splits)
  with run have w2: "w' = w2"
    and resp: "resp = (case r2 of Inl err \<Rightarrow> (500, ErrorDetail ''Server error'' err) | Inr r \<Rightarrow> r)"
    by simp_all
  have calls: "openai_calls w1 = openai_calls w" and ch: "chats w1 = chats w"
    using reconcile_frame[OF rec] by simp_all
  have a: "users w' \<noteq> users w1 \<longrightarrow>
            pl = PlanName ''NONE'' \<and>
            (\<exists>qn c. question req = Some qn \<and> qn \<noteq> [] \<and>
                     chat_completions_create env (prompt env req qn) = Inr c \<and>
                     openai_calls w' = openai_calls w @ [prompt env req qn]) \<and>
            users w' = (users w1)(uid \<mapsto> (doc_or_empty (users w1 uid))\<lparr>quota := Some (q - 1)\<rparr>)"
    using after_gate_users[OF ag] after_gate_calls[OF ag] w2 calls by auto
  have b: "\<And>qn e. question req = Some qn \<Longrightarrow> qn \<noteq> [] \<Longrightarrow>
                  chat_completions_create env (prompt env req qn) = Inl e \<Longrightarrow>
            resp = (500, ErrorDetail ''OpenAI error'' e) \<and>
            users w' = users w1 \<and> chats w' = chats w"
    using after_gate_failure[OF _ _ _ ag] w2 resp ch by auto
  have c: "\<And>qn c. question req = Some qn \<Longrightarrow> qn \<noteq> [] \<Longrightarrow> pl = PlanName ''NONE'' \<Longrightarrow>
                  chat_completions_create env (prompt env req qn) = Inr c \<Longrightarrow>
                  quota_set_err env = None \<Longrightarrow>
            users w' = (users w1)(uid \<mapsto> (doc_or_empty (users w1 uid))\<lparr>quota := Some (q - 1)\<rparr>)"
    using after_gate_success ag w2 by blast
  show ?thesis using a b c by blast
qed

text \<open>
  The theorem at a free user with quota 2: with the inference API failing (status 500,
  quota still 2, no chat) and with it answering (quota 1).
\<close>

theorem C3_decrement_after_success_witness:
  "rq_method req0 = ''POST'' \<and> x_user_id req0 = Some ''u1'' \<and>
   load_entitlement env_down ''u1'' (w_user (doc_of ''NONE'' 2 2000)) = Inr (PlanName ''NONE'', 2, Some 2000) \<and>
   reconcile env_down ''u1'' 2 (Some 2000) (w_user (doc_of ''NONE'' 2 2000))
     = (w_user (doc_of ''NONE'' 2 2000), Inr (2, 2000)) \<and>
   question req0 = Some ''hi'' \<and>
   chat_completions_create env_down (prompt env_down req0 ''hi'') = Inl ''timeout'' \<and>
   snd (handler env_down req0 (w_user (doc_of ''NONE'' 2 2000)))
     = (500, ErrorDetail ''OpenAI error'' ''timeout'') \<and>
   users (fst (handler env_down req0 (w_user (doc_of ''NONE'' 2 2000)))) ''u1''
     = Some (doc_of ''NONE'' 2 2000) \<and>
   chats (fst (handler env_down req0 (w_user (doc_of ''NONE'' 2 2000)))) = Map.empty \<and>
   chat_completions_create env0 (prompt env0 req0 ''hi'') = Inr (Some ''answer'') \<and>
   users (fst (handler env0 req0 (w_user (doc_of ''NONE'' 2 2000)))) ''u1''
     = Some (doc_of ''NONE'' 1 2000)"
proof -
  let ?w = "w_user (doc_of ''NONE'' 2 2000)"
  have h1: "rq_method req0 = ''POST''" and h2: "x_user_id req0 = Some ''u1''"
    and h3: "''u1'' \<noteq> []" and q: "question req0 = Some ''hi''" "''hi'' \<noteq> []"
    by (simp_all add: req0_def)
  have l1: "load_entitlement env_down ''u1'' ?w = Inr (PlanName ''NONE'', 2, Some 2000)"
    and l2: "load_entitlement env0 ''u1'' ?w = Inr (PlanName ''NONE'', 2, Some 2000)"
    by (simp_all add: ask_defs example_defs env_down_def)
  have r1: "reconcile env_down ''u1'' 2 (Some 2000) ?w = (?w, Inr (2, 2000))"
    and r2: "reconcile env0 ''u1'' 2 (Some 2000) ?w = (?w, Inr (2, 2000))"
    by (simp_all add: reconcile_def window_expired_def env0_def env_down_def)
  have f: "chat_completions_create env_down (prompt env_down req0 ''hi'') = Inl ''timeout''"
    and s: "chat_completions_create env0 (prompt env0 req0 ''hi'') = Inr (Some ''answer'')"
    and e: "quota_set_err env0 = None"
    by (simp_all add: env_down_def env0_def)
  have u: "users ?w ''u1'' = Some (doc_of ''NONE'' 2 2000)" "chats ?w = Map.empty"
    "((users ?w)(''u1'' \<mapsto> (doc_or_empty (users ?w ''u1''))\<lparr>quota := Some (2 - 1)\<rparr>)) ''u1''
       = Some (doc_of ''NONE'' 1 2000)"
    by (simp_all add: example_defs doc_or_empty_def)
  note a = C3_decrement_after_success[OF h1 h2 h3 l1 r1 prod.collapse[symmetric]]
  note b = C3_decrement_after_success[OF h1 h2 h3 l2 r2 prod.collapse[symmetric]]
  from a q f have a1: "snd (handler env_down req0 ?w) = (500, ErrorDetail ''OpenAI error'' ''timeout'')"
    and a2: "users (fst (handler env_down req0 ?w)) = users ?w"
    and a3: "chats (fst (handler env_down req0 ?w)) = chats ?w"
    by simp_all
  from b q s e have b1: "users (fst (handler env0 req0 ?w)) =
      (users ?w)(''u1'' \<mapsto> (doc_or_empty (users ?w ''u1''))\<lparr>quota := Some (2 - 1)\<rparr>)"
    by simp
  show ?thesis using h1 h2 l1 r1 q f s a1 a2 a3 b1 u by simp
qed

subsection \<open>C4: the stored quota is not negative\<close>

text \<open>
  Claim C4 as stated fails in two ways. With a negative configured limit
  (\<^verbatim>\<open>FREE_WEEKLY_LIMIT = -1\<close>) the reset of an expired window stores the quota \<open>-1\<close>.
  And the decrement is an unconditional merge write of the value the handler read
  earlier, less one: the check \<open>quota > 0\<close> is the handler's own, made on that earlier
  reading, and nothing at the storage layer guards the write. In the last five
  conjuncts two requests of a free user with quota 1 both read the document before
  either writes; the first is answered and stores quota 0 (world \<open>w_served\<close>); the
  part of the handler after the admission check then runs for the second on that world
  with the quota 1 it had read: it is answered as well, and its write of quota 0 goes
  through. Two inference calls were made on a quota of 1.
\<close>

theorem C4_counterexample:
  "quota_ok (doc_of ''NONE'' 1 999) \<and>
   users (fst (handler (env0\<lparr>FREE_WEEKLY_LIMIT := - 1\<rparr>) req0 (w_user (doc_of ''NONE'' 1 999)))) ''u1''
     = Some (doc_of ''NONE'' (- 1) 604801000) \<and>
   \<not> quota_ok (doc_of ''NONE'' (- 1) 604801000) \<and>
   load_entitlement env_second ''u1'' (w_user (doc_of ''NONE'' 1 2000)) = Inr (PlanName ''NONE'', 1, Some 2000) \<and>
   users w_served ''u1'' = Some (doc_of ''NONE'' 0 2000) \<and>
   snd (after_gate env_second ''u1'' req0 (PlanName ''NONE'') 1 2000 w_served)
     = Inr (200, Answer ''answer'' (Remaining 0) 2000 ''c2'') \<and>
   users (fst (after_gate env_second ''u1'' req0 (PlanName ''NONE'') 1 2000 w_served)) ''u1''
     = Some (doc_of ''NONE'' 0 2000) \<and>
   openai_calls (fst (after_gate env_second ''u1'' req0 (PlanName ''NONE'') 1 2000 w_served)) = [''hi'', ''hi'']"
  by (simp add: ask_defs example_defs quota_ok_def w_served_def env_second_def Let_def)

text \<open>
  Claim C4, amended. When the configured limit is not negative and the stored quota of
  the requesting user is not negative (or absent), the stored quota of that user is not
  negative after the handler, and no other user document changes. This rests on the
  handler's admission check followed by an unconditional write of \<open>quota - 1\<close>, not
  on a conditional write at the storage layer.
\<close>

theorem C4_quota_never_negative:
  assumes lim: "0 \<le> FREE_WEEKLY_LIMIT env"
    and post: "rq_method req = ''POST''"
    and uid: "x_user_id req = Some uid" "uid \<noteq> []"
    and ok: "quota_ok (doc_or_empty (users w uid))"
    and run: "handler env req w = (w', resp)"
  shows "quota_ok (doc_or_empty (users w' uid)) \<and> (\<forall>u. u \<noteq> uid \<longrightarrow> users w' u = users w u)"
proof (cases "load_entitlement env uid w")
  case (Inl e)
  then have "handler env req w = (w, (500, ErrorDetail ''Server error'' e))"
    by (simp add: handler_post[OF post uid] handler_try_def)
  with run ok show ?thesis by simp
next
  case (Inr t)
  then obtain pl q0 r0 where load: "load_entitlement env uid w = Inr (pl, q0, r0)"
    by (cases t) auto
  have q0: "0 \<le> q0"
    using load lim ok
    by (auto simp: load_entitlement_def quota_ok_def Let_def split: option.splits)
  obtain w1 rr where rec: "reconcile env uid q0 r0 w = (w1, rr)"
    by (cases "reconcile env uid q0 r0 w")
  have ok1: "quota_ok (doc_or_empty (users w1 uid))" and fr1: "\<forall>u. u \<noteq> uid \<longrightarrow> users w1 u = users w u"
    using rec ok lim
    by (auto simp: reconcile_def Let_def quota_ok_def doc_or_empty_def split: option.splits if_splits)
  show ?thesis
  proof (cases rr)
    case (Inl e)
    then have "handler env req w = (w1, (500, ErrorDetail ''Server error'' e))"
      using load rec by (simp add: handler_post[OF post uid] handler_try_def)
    with run ok1 fr1 show ?thesis by simp
  next
    case (Inr p)
    then obtain q resetAt where rec': "reconcile env uid q0 r0 w = (w1, Inr (q, resetAt))"
      using rec by (cases p) auto
    have q: "0 \<le> q"
      using rec' q0 lim by (auto simp: reconcile_def Let_def split: option.splits if_splits)
    show ?thesis
    proof (cases "pl = PlanName ''NONE'' \<and> q \<le> 0")
      case True
      have "handler env req w = (w1, (402, ErrorReset ''Free Weekly Limit Reached'' resetAt))"
        using True by (simp add: handler_post[OF post uid] handler_try_gate[OF load rec'])
      with run ok1 fr1 show ?thesis by simp
    next
      case False
      obtain w2 r2 where ag: "after_gate env uid req pl q resetAt w1 = (w2, r2)"
        by (cases "after_gate env uid req pl q resetAt w1")
      have "handler env req w =
          (w2, case r2 of Inl err \<Rightarrow> (500, ErrorDetail ''Server error'' err) | Inr r \<Rightarrow> r)"
        using False ag
        by (auto simp: handler_post[OF post uid] handler_try_gate[OF load rec'] split: sum.splits)
      with run have w2: "w' = w2" by simp
      from after_gate_users[OF ag] show ?thesis
      proof
        assume "users w2 = users w1"
        with w2 ok1 fr1 show ?thesis by simp
      next
        assume d: "pl = PlanName ''NONE'' \<and> quota_set_err env = None \<and>
          (\<exists>qn c. question req = Some qn \<and> qn \<noteq> [] \<and>
               chat_completions_create env (prompt env req qn) = Inr c) \<and>
          users w2 = (users w1)(uid \<mapsto> (doc_or_empty (users w1 uid))\<lparr>quota := Some (q - 1)\<rparr>)"
        with False have "0 < q" by auto
        with d w2 fr1 show ?thesis by (simp add: quota_ok_def doc_or_empty_def)
      qed
    qed
  qed
qed

text \<open>
  The theorem at a free user with quota 1: the quota stored after the answer is 0.
\<close>

theorem C4_quota_never_negative_witness:
  "0 \<le> FREE_WEEKLY_LIMIT env0 \<and> quota_ok (doc_or_empty (users (w_user (doc_of ''NONE'' 1 2000)) ''u1'')) \<and>
   users (fst (handler env0 req0 (w_user (doc_of ''NONE'' 1 2000)))) ''u1''
     = Some (doc_of ''NONE'' 0 2000) \<and>
   quota_ok (doc_or_empty (users (fst (handler env0 req0 (w_user (doc_of ''NONE'' 1 2000)))) ''u1''))"
proof -
  let ?w = "w_user (doc_of ''NONE'' 1 2000)"
  have h: "0 \<le> FREE_WEEKLY_LIMIT env0" "rq_method req0 = ''POST''" "x_user_id req0 = Some ''u1''"
    "''u1'' \<noteq> []" "quota_ok (doc_or_empty (users ?w ''u1''))"
    by (simp_all add: example_defs doc_or_empty_def quota_ok_def)
  have v: "users (fst (handler env0 req0 ?w)) ''u1'' = Some (doc_of ''NONE'' 0 2000)"
    by (simp add: ask_defs example_defs Let_def)
  from C4_quota_never_negative[OF h prod.collapse[symmetric]]
  have "quota_ok (doc_or_empty (users (fst (handler env0 req0 ?w)) ''u1''))" by simp
  with h v show ?thesis by simp
qed

subsection \<open>C8: the first reconciliation of a user\<close>

text \<open>
  Claim C8 as stated has the initial plan \<^verbatim>\<open>NONE\<close> persisted. The handler writes
  \<^verbatim>\<open>{ quota, quota_reset_at }\<close> only: after the first request of a user, answered or
  rejected for a missing question, the stored document has no \<^verbatim>\<open>plan\<close> field.
\<close>

theorem C8_counterexample:
  "users w0 ''u1'' = None \<and>
   snd (handler env0 req0 w0) = (200, Answer ''answer'' (Remaining 2) 604801000 ''c1'') \<and>
   users (fst (handler env0 req0 w0)) ''u1''
     = Some (empty_doc\<lparr>quota := Some 2, quota_reset_at := Some 604801000\<rparr>) \<and>
   users (fst (handler env0 req_no_question w0)) ''u1''
     = Some (empty_doc\<lparr>quota := Some 3, quota_reset_at := Some 604801000\<rparr>) \<and>
   plan (empty_doc\<lparr>quota := Some 3, quota_reset_at := Some 604801000\<rparr>) = None"
  by (simp add: ask_defs example_defs req_no_question_def Let_def)

text \<open>
  Claim C8, amended. When no document exists for the requesting user, the handler goes
  on with plan \<^verbatim>\<open>NONE\<close> (the default it takes at every read), quota
  \<^verbatim>\<open>FREE_WEEKLY_LIMIT\<close> and a reset time 7 days after the clock reading of
  \<^verbatim>\<open>getResetDate\<close>, and it persists the quota and the reset time, not the plan: when
  the read and the write succeed, the document stored after the handler holds the reset
  time and the quota (the limit, or the limit less one after an answer) and no other
  field.
\<close>

theorem C8_first_reconciliation:
  assumes post: "rq_method req = ''POST''"
    and uid: "x_user_id req = Some uid" "uid \<noteq> []"
    and absent: "users w uid = None"
    and get: "user_get_err env = None"
    and set: "reset_set_err env = None"
    and run: "handler env req w = (w', resp)"
  shows "load_entitlement env uid w = Inr (PlanName ''NONE'', FREE_WEEKLY_LIMIT env, None) \<and>
         reconcile env uid (FREE_WEEKLY_LIMIT env) None w =
           (w\<lparr>users := (users w)(uid \<mapsto>
                empty_doc\<lparr>quota := Some (FREE_WEEKLY_LIMIT env),
                          quota_reset_at := Some (now_reset env + 7 * 86400000)\<rparr>)\<rparr>,
            Inr (FREE_WEEKLY_LIMIT env, now_reset env + 7 * 86400000)) \<and>
         (users w' uid = Some (empty_doc\<lparr>quota := Some (FREE_WEEKLY_LIMIT env),
                          quota_reset_at := Some (now_reset env + 7 * 86400000)\<rparr>) \<or>
          users w' uid = Some (empty_doc\<lparr>quota := Some (FREE_WEEKLY_LIMIT env - 1),
                          quota_reset_at := Some (now_reset env + 7 * 86400000)\<rparr>)) \<and>
         (\<exists>d. users w' uid = Some d \<and> plan d = None)"
proof -
  let ?F = "FREE_WEEKLY_LIMIT env" and ?t = "now_reset env + 7 * 86400000"
  let ?d = "empty_doc\<lparr>quota := Some ?F, quota_reset_at := Some ?t\<rparr>"
  let ?w1 = "w\<lparr>users := (users w)(uid \<mapsto> ?d)\<rparr>"
  have load: "load_entitlement env uid w = Inr (PlanName ''NONE'', ?F, None)"
    using absent get by (simp add: load_entitlement_def doc_or_empty_def empty_doc_def)
  have rec: "reconcile env uid ?F None w = (?w1, Inr (?F, ?t))"
    using reconcile_expired[of env None, OF _ set] absent
    by (simp add: window_expired_def doc_or_empty_def)
  have stored: "users w' uid = Some ?d \<or>
      users w' uid = Some (empty_doc\<lparr>quota := Some (?F - 1), quota_reset_at := Some ?t\<rparr>)"
  proof (cases "?F \<le> 0")
    case True
    have "handler env req w = (?w1, (402, ErrorReset ''Free Weekly Limit Reached'' ?t))"
      using True by (simp add: handler_post[OF post uid] handler_try_gate[OF load rec])
    with run show ?thesis by auto
  next
    case False
    obtain w2 r2 where ag: "after_gate env uid req (PlanName ''NONE'') ?F ?t ?w1 = (w2, r2)"
      by (cases "after_gate env uid req (PlanName ''NONE'') ?F ?t ?w1")
    have "handler env req w =
        (w2, case r2 of Inl err \<Rightarrow> (500, ErrorDetail ''Server error'' err) | Inr r \<Rightarrow> r)"
      using False ag
      by (auto simp: handler_post[OF post uid] handler_try_gate[OF load rec] split: sum.splits)
    with run have w2: "w' = w2" by simp
    from after_gate_users[OF ag] w2 show ?thesis
      by (auto simp: doc_or_empty_def empty_doc_def)
  qed
  have "\<exists>d. users w' uid = Some d \<and> plan d = None"
    using stored by (auto simp: empty_doc_def)
  with load rec stored show ?thesis by simp
qed

text \<open>
  The theorem at the first request of user \<open>u1\<close>.
\<close>

theorem C8_first_reconciliation_witness:
  "rq_method req0 = ''POST'' \<and> x_user_id req0 = Some ''u1'' \<and> users w0 ''u1'' = None \<and>
   user_get_err env0 = None \<and> reset_set_err env0 = None \<and>
   load_entitlement env0 ''u1'' w0 = Inr (PlanName ''NONE'', 3, None) \<and>
   snd (reconcile env0 ''u1'' 3 None w0) = Inr (3, 604801000) \<and>
   (\<exists>d. users (fst (handler env0 req0 w0)) ''u1'' = Some d \<and> plan d = None)"
proof -
  have h: "rq_method req0 = ''POST''" "x_user_id req0 = Some ''u1''" "''u1'' \<noteq> []"
    "users w0 ''u1'' = None" "user_get_err env0 = None" "reset_set_err env0 = None"
    by (simp_all add: example_defs)
  have f: "FREE_WEEKLY_LIMIT env0 = 3" "now_reset env0 + 7 * 86400000 = 604801000"
    by (simp_all add: env0_def)
  note t = C8_first_reconciliation[OF h prod.collapse[symmetric]]
  from t f have a: "load_entitlement env0 ''u1'' w0 = Inr (PlanName ''NONE'', 3, None)"
    and b: "snd (reconcile env0 ''u1'' 3 None w0) = Inr (3, 604801000)"
    and c: "\<exists>d. users (fst (handler env0 req0 w0)) ''u1'' = Some d \<and> plan d = None"
    by simp_all
  show ?thesis using h a b c by simp
qed

subsection \<open>C9: the document context\<close>



subsection \<open>C10: the reset is persisted before the body is validated\<close>

text \<open>
  Claim C10. When the quota window of the requesting user has expired and the handler
  answers 400, the body is \<^verbatim>\<open>No question\<close>, and the world differs from the initial
  one in the user's document only, where the quota is the weekly limit (not
  decremented) and the reset time is 7 days after the clock reading of
  \<^verbatim>\<open>getResetDate\<close>; the other fields of the document are kept, no chat document is
  written and no inference call is made.
\<close>

theorem C10_reset_persisted_before_validation:
  assumes post: "rq_method req = ''POST''"
    and uid: "x_user_id req = Some uid" "uid \<noteq> []"
    and get: "user_get_err env = None"
    and expired: "window_expired env (quota_reset_at (doc_or_empty (users w uid)))"
    and run: "handler env req w = (w', (400, b))"
  shows "b = Error ''No question'' \<and> \<not> truthy (question req) \<and>
         w' = w\<lparr>users := (users w)(uid \<mapsto>
                (doc_or_empty (users w uid))\<lparr>quota := Some (FREE_WEEKLY_LIMIT env),
                   quota_reset_at := Some (now_reset env + 7 * 86400000)\<rparr>)\<rparr> \<and>
         chats w' = chats w \<and> openai_calls w' = openai_calls w"
proof -
  let ?d = "doc_or_empty (users w uid)"
  let ?pl = "case plan ?d of None \<Rightarrow> PlanName ''NONE'' | Some p \<Rightarrow> p"
  let ?q0 = "case quota ?d of None \<Rightarrow> FREE_WEEKLY_LIMIT env | Some q \<Rightarrow> q"
  let ?F = "FREE_WEEKLY_LIMIT env" and ?t = "now_reset env + 7 * 86400000"
  let ?w1 = "w\<lparr>users := (users w)(uid \<mapsto> ?d\<lparr>quota := Some ?F, quota_reset_at := Some ?t\<rparr>)\<rparr>"
  have load: "load_entitlement env uid w = Inr (?pl, ?q0, quota_reset_at ?d)"
    using get by (simp add: load_entitlement_def Let_def)
  show ?thesis
  proof (cases "reset_set_err env")
    case (Some e)
    have "handler env req w = (w, (500, ErrorDetail ''Server error'' e))"
      using load reconcile_expired_err[OF expired Some]
      by (simp add: handler_post[OF post uid] handler_try_def)
    with run show ?thesis by simp
  next
    case None
    have rec: "reconcile env uid ?q0 (quota_reset_at ?d) w = (?w1, Inr (?F, ?t))"
      using reconcile_expired[OF expired None] by simp
    show ?thesis
    proof (cases "?pl = PlanName ''NONE'' \<and> ?F \<le> 0")
      case True
      have "handler env req w = (?w1, (402, ErrorReset ''Free Weekly Limit Reached'' ?t))"
        using True by (simp add: handler_post[OF post uid] handler_try_gate[OF load rec])
      with run show ?thesis by simp
    next
      case False
      obtain w2 r2 where ag: "after_gate env uid req ?pl ?F ?t ?w1 = (w2, r2)"
        by (cases "after_gate env uid req ?pl ?F ?t ?w1")
      have "handler env req w =
          (w2, case r2 of Inl err \<Rightarrow> (500, ErrorDetail ''Server error'' err) | Inr r \<Rightarrow> r)"
        using False ag
        by (auto simp: handler_post[OF post uid] handler_try_gate[OF load rec] split: sum.splits)
      with run have w2: "w' = w2"
        and r2: "(case r2 of Inl err \<Rightarrow> (500, ErrorDetail ''Server error'' err) | Inr r \<Rightarrow> r) = (400, b)"
        by simp_all
      from r2 have "r2 = Inr (400, b)" by (cases r2) auto
      with ag have "after_gate env uid req ?pl ?F ?t ?w1 = (w2, Inr (400, b))" by simp
      from after_gate_400[OF this] w2 show ?thesis by simp
    qed
  qed
qed

text \<open>
  The theorem at a free user whose window expired one millisecond ago, on a request
  without a question.
\<close>

theorem C10_reset_persisted_before_validation_witness:
  "rq_method req_no_question = ''POST'' \<and> x_user_id req_no_question = Some ''u1'' \<and>
   user_get_err env0 = None \<and>
   window_expired env0 (quota_reset_at (doc_or_empty (users (w_user (doc_of ''NONE'' 0 999)) ''u1''))) \<and>
   snd (handler env0 req_no_question (w_user (doc_of ''NONE'' 0 999))) = (400, Error ''No question'') \<and>
   users (fst (handler env0 req_no_question (w_user (doc_of ''NONE'' 0 999)))) ''u1''
     = Some (doc_of ''NONE'' 3 604801000) \<and>
   chats (fst (handler env0 req_no_question (w_user (doc_of ''NONE'' 0 999)))) = Map.empty \<and>
   openai_calls (fst (handler env0 req_no_question (w_user (doc_of ''NONE'' 0 999)))) = []"
proof -
  let ?w = "w_user (doc_of ''NONE'' 0 999)"
  have h: "rq_method req_no_question = ''POST''" "x_user_id req_no_question = Some ''u1''"
    "''u1'' \<noteq> []" "user_get_err env0 = None"
    "window_expired env0 (quota_reset_at (doc_or_empty (users ?w ''u1'')))"
    by (simp_all add: example_defs req_no_question_def doc_or_empty_def window_expired_def)
  have r: "snd (handler env0 req_no_question ?w) = (400, Error ''No question'')"
    by (simp add: ask_defs example_defs req_no_question_def Let_def)
  then have run: "handler env0 req_no_question ?w
      = (fst (handler env0 req_no_question ?w), (400, Error ''No question''))"
    by (metis prod.collapse)
  note t = C10_reset_persisted_before_validation[OF h run]
  have v: "users (?w\<lparr>users := (users ?w)(''u1'' \<mapsto>
                (doc_or_empty (users ?w ''u1''))\<lparr>quota := Some (FREE_WEEKLY_LIMIT env0),
                   quota_reset_at := Some (now_reset env0 + 7 * 86400000)\<rparr>)\<rparr>) ''u1''
      = Some (doc_of ''NONE'' 3 604801000)"
    "chats ?w = Map.empty" "openai_calls ?w = []"
    by (simp_all add: example_defs doc_or_empty_def)
  from t v have a: "users (fst (handler env0 req_no_question ?w)) ''u1'' = Some (doc_of ''NONE'' 3 604801000)"
    and b: "chats (fst (handler env0 req_no_question ?w)) = Map.empty"
    and c: "openai_calls (fst (handler env0 req_no_question ?w)) = []"
    by simp_all
  show ?thesis using h r a b c by simp
qed

section \<open>Lemmas on the payment webhook\<close>

lemmas webhook_defs = webhook_def webhook_uploads_def webhook_with_def dedupe_def
  process_event_def process_event_uploads_def checkout_completed_def
  checkout_completed_uploads_def checkout_user_write_def subscription_updated_def
  subscription_deleted_def lookup_uid_def plan_of_price_def PRICE_TO_PLAN_def event_type_def
  property_name_def Object_prototype_names_def user_set_throws_def
  or_null_def js_or_def truthy_def doc_or_empty_def

lemmas webhook_example_defs = session1_def sub1_def ev_checkout_def ev_checkout_anon_def
  ev_updated_def ev_deleted_def wenv_def wenv_bad_def wreq_def w_indexed_def w0_def empty_doc_def
  ev_checkout_nocust_def wenv_inherited_def full1_def

lemma plan_of_price_Pro:
  "property_name p \<notin> set Object_prototype_names \<Longrightarrow> plan_of_price p = PlanName ''Pro''"
  by (simp add: plan_of_price_def PRICE_TO_PLAN_def Let_def)

lemma plan_of_price_inherited:
  "property_name p \<in> set Object_prototype_names \<Longrightarrow> plan_of_price p = NotAString"
  by (simp add: plan_of_price_def PRICE_TO_PLAN_def Let_def)

lemma dedupe_cases:
  "dedupe env ev w = (w', d) \<Longrightarrow>
     users w' = users w \<and> chats w' = chats w \<and> stripeCustomers w' = stripeCustomers w \<and>
     openai_calls w' = openai_calls w \<and> s3_reads w' = s3_reads w \<and>
     stripe_retrievals w' = stripe_retrievals w \<and> (d \<longrightarrow> w' = w)"
  by (auto simp: dedupe_def split: option.splits)

lemma dedupe_records:
  "seen_get_err env = None \<Longrightarrow> seen_set_err env = None \<Longrightarrow> dedupe env ev w = (w', d) \<Longrightarrow>
     stripe_events w' (ev_id ev) \<noteq> None"
  by (auto simp: dedupe_def split: option.splits)

lemma dedupe_seen:
  "seen_get_err env = None \<Longrightarrow> stripe_events w (ev_id ev) \<noteq> None \<Longrightarrow> dedupe env ev w = (w, True)"
  by (auto simp: dedupe_def split: option.splits)

lemma checkout_completed_events:
  "checkout_completed env s w = (w', r) \<Longrightarrow> stripe_events w' = stripe_events w"
  by (auto simp: checkout_completed_def Let_def split: option.splits sum.splits prod.splits)

lemma checkout_completed_uploads_events:
  "checkout_completed_uploads env s w = (w', r) \<Longrightarrow> stripe_events w' = stripe_events w"
  by (auto simp: checkout_completed_uploads_def Let_def split: option.splits sum.splits prod.splits)

lemma subscription_updated_events:
  "subscription_updated env sub w = (w', r) \<Longrightarrow> stripe_events w' = stripe_events w"
  by (auto simp: subscription_updated_def Let_def split: option.splits sum.splits)

lemma subscription_deleted_events:
  "subscription_deleted env sub w = (w', r) \<Longrightarrow> stripe_events w' = stripe_events w"
  by (auto simp: subscription_deleted_def Let_def split: option.splits sum.splits)

lemma process_event_events:
  "process_event env ev w = (w', r) \<Longrightarrow> stripe_events w' = stripe_events w"
  by (auto simp: process_event_def split: event_data.splits
      dest: checkout_completed_events subscription_updated_events subscription_deleted_events)

lemma process_event_uploads_events:
  "process_event_uploads env ev w = (w', r) \<Longrightarrow> stripe_events w' = stripe_events w"
  by (auto simp: process_event_uploads_def split: event_data.splits
      dest: checkout_completed_uploads_events subscription_updated_events subscription_deleted_events)

lemma webhook_with_records:
  assumes fr: "\<And>w w' r. process env ev w = (w', r) \<Longrightarrow> stripe_events w' = stripe_events w"
    and v: "constructEvent env (raw_body req) (stripe_signature req) = Inr ev"
    and ok: "seen_get_err env = None" "seen_set_err env = None"
    and run: "webhook_with process env req w = (w', r)"
  shows "stripe_events w' (ev_id ev) \<noteq> None"
proof -
  obtain w1 d where d: "dedupe env ev w = (w1, d)" by (cases "dedupe env ev w")
  have s1: "stripe_events w1 (ev_id ev) \<noteq> None" using dedupe_records[OF ok d] .
  show ?thesis
  proof (cases d)
    case True
    with run v d have "w' = w1" by (simp add: webhook_with_def)
    with s1 show ?thesis by simp
  next
    case False
    obtain w2 e where p: "process env ev w1 = (w2, e)" by (cases "process env ev w1")
    with run v d False have "w' = w2" by (auto simp: webhook_with_def split: option.splits)
    with fr[OF p] s1 show ?thesis by simp
  qed
qed

lemma webhook_with_duplicate:
  "constructEvent env (raw_body req) (stripe_signature req) = Inr ev \<Longrightarrow>
   seen_get_err env = None \<Longrightarrow> stripe_events w (ev_id ev) \<noteq> None \<Longrightarrow>
     webhook_with process env req w = (w, (200, ReceivedDuplicate))"
  by (simp add: webhook_with_def dedupe_seen)

lemma lookup_uid_found:
  "customer_get_err env = None \<Longrightarrow> stripeCustomers w c = Some d \<Longrightarrow> cd_uid d = Some uid \<Longrightarrow>
   uid \<noteq> [] \<Longrightarrow> lookup_uid env c w = Inr (Some uid)"
  by (simp add: lookup_uid_def or_null_def truthy_def)

lemma lookup_uid_missing:
  "customer_get_err env = None \<Longrightarrow> \<forall>d. stripeCustomers w c = Some d \<longrightarrow> \<not> truthy (cd_uid d) \<Longrightarrow>
   lookup_uid env c w = Inr None"
  by (auto simp: lookup_uid_def or_null_def truthy_def split: option.splits)

lemma lookup_uid_dedupe:
  "dedupe env ev w = (w1, d) \<Longrightarrow> lookup_uid env c w1 = lookup_uid env c w"
  using dedupe_cases[of env ev w w1 d]
  by (cases "customer_get_err env") (simp_all add: lookup_uid_def)

lemma checkout_completed_ok:
  assumes "sessions_retrieve env (s_id s) = Inr full"
    and "customer_set_err env = None" and "user_set_err env = None"
    and "property_name (or_null (line_item_price_id full)) \<notin> set Object_prototype_names"
  shows "checkout_completed env s w =
       (w\<lparr> stripe_retrievals := stripe_retrievals w @ [s_id s],
            stripeCustomers :=
              (case or_null (customer s) of
                 None \<Rightarrow> stripeCustomers w
               | Some c \<Rightarrow> (stripeCustomers w)(c \<mapsto> \<lparr> cd_uid = or_null (client_reference_id s) \<rparr>)),
            users :=
              (case or_null (client_reference_id s) of
                 None \<Rightarrow> users w
               | Some u \<Rightarrow> (users w)(u \<mapsto>
                   (doc_or_empty (users w u))
                     \<lparr> plan := Some (PlanName ''Pro''),
                        stripe_customerId := or_null (customer s),
                        stripe_subscriptionId :=
                          or_null (js_or (full_subscription_id full) (subscription s)),
                        stripe_priceId := or_null (line_item_price_id full),
                        stripe_status := Some ''active'',
                        stripe_lastCheckoutSessionId := Some (s_id s),
                        updatedAt := Some (updatedAt_time env) \<rparr>)) \<rparr>,
        None)"
  using assms plan_of_price_Pro[of "or_null (line_item_price_id full)"]
  by (cases "or_null (client_reference_id s)"; cases "or_null (customer s)")
     (simp_all add: checkout_completed_def checkout_user_write_def user_set_throws_def Let_def)

lemma subscription_updated_ok:
  assumes "lookup_uid env (sub_customer sub) w = Inr (Some uid)" and "user_set_err env = None"
    and "sub_status sub = ''active'' \<or> sub_status sub = ''trialing'' \<longrightarrow>
         property_name (or_null (js_or (sub_item_price_id sub) (sub_plan_id sub)))
           \<notin> set Object_prototype_names"
  shows "subscription_updated env sub w =
        (w\<lparr>users := (users w)(uid \<mapsto>
            (doc_or_empty (users w uid))
              \<lparr> plan := Some (PlanName (if sub_status sub = ''active'' \<or> sub_status sub = ''trialing''
                                        then ''Pro'' else ''NONE'')),
                 stripe_customerId := Some (sub_customer sub),
                 stripe_subscriptionId := Some (sub_id sub),
                 stripe_priceId := or_null (js_or (sub_item_price_id sub) (sub_plan_id sub)),
                 stripe_status := Some (sub_status sub),
                 updatedAt := Some (updatedAt_time env) \<rparr>)\<rparr>, None)"
proof (cases "sub_status sub = ''active'' \<or> sub_status sub = ''trialing''")
  case True
  with assms(3) have "plan_of_price (or_null (js_or (sub_item_price_id sub) (sub_plan_id sub)))
      = PlanName ''Pro''"
    using plan_of_price_Pro by blast
  with True assms(1,2) show ?thesis
    by (simp add: subscription_updated_def user_set_throws_def Let_def)
next
  case False
  with assms(1,2) show ?thesis
    by (simp add: subscription_updated_def user_set_throws_def Let_def)
qed

lemma subscription_deleted_ok:
  assumes "lookup_uid env (sub_customer sub) w = Inr (Some uid)" and "user_set_err env = None"
  shows "subscription_deleted env sub w =
        (w\<lparr>users := (users w)(uid \<mapsto>
            (doc_or_empty (users w uid))
              \<lparr> plan := Some (PlanName ''NONE''),
                 stripe_customerId := Some (sub_customer sub),
                 stripe_subscriptionId := Some (sub_id sub),
                 stripe_status := Some ''canceled'',
                 updatedAt := Some (updatedAt_time env) \<rparr>)\<rparr>, None)"
  using assms by (simp add: subscription_deleted_def Let_def)

lemma subscription_unresolved:
  assumes "lookup_uid env (sub_customer sub) w = Inr None"
  shows "subscription_updated env sub w = (w, None)" "subscription_deleted env sub w = (w, None)"
  using assms by (simp_all add: subscription_updated_def subscription_deleted_def Let_def)

lemma webhook_unresolved:
  assumes v: "constructEvent env (raw_body req) (stripe_signature req) = Inr ev"
    and sub: "ev_data ev = SubscriptionUpdated sub \<or> ev_data ev = SubscriptionDeleted sub"
    and un: "lookup_uid env (sub_customer sub) w = Inr None"
  shows "users (fst (webhook env req w)) = users w \<and> fst (snd (webhook env req w)) = 200"
proof -
  obtain w1 d where d: "dedupe env ev w = (w1, d)" by (cases "dedupe env ev w")
  have u1: "users w1 = users w" using dedupe_cases[OF d] by simp
  have "lookup_uid env (sub_customer sub) w1 = Inr None"
    using lookup_uid_dedupe[OF d] un by simp
  then have "process_event env ev w1 = (w1, None)"
    using sub subscription_unresolved by (auto simp: process_event_def)
  then show ?thesis
    using v d u1 by (cases d) (simp_all add: webhook_def webhook_with_def)
qed

section \<open>The claims about the payment webhook\<close>

subsection \<open>C5: a second delivery of the same event\<close>

text \<open>
  Claim C5 is stated for every two deliveries of one event. The de-duplication runs inside
  a \<^verbatim>\<open>try\<close> whose \<^verbatim>\<open>catch\<close> swallows the error: when the lookup of the
  processed-event record throws on the second delivery, the event is processed again.
  Here the first delivery of \<open>ev_updated\<close> records the event and writes the user
  document (update time 5001); the second delivery, whose lookup throws, writes the user
  document again (update time 6001) and is acknowledged without the duplicate
  indicator.
\<close>

theorem C5_counterexample:
  "constructEvent (wenv ev_updated) (raw_body wreq) (stripe_signature wreq) = Inr ev_updated \<and>
   constructEvent wenv_retry (raw_body wreq) (stripe_signature wreq) = Inr ev_updated \<and>
   snd (webhook (wenv ev_updated) wreq w_indexed) = (200, Received) \<and>
   map_option er_type (stripe_events w_delivered ''evt_2'') = Some ''customer.subscription.updated'' \<and>
   map_option updatedAt (users w_delivered ''u1'') = Some (Some 5001) \<and>
   snd (webhook wenv_retry wreq w_delivered) = (200, Received) \<and>
   map_option updatedAt (users (fst (webhook wenv_retry wreq w_delivered)) ''u1'') = Some (Some 6001)"
  by (simp add: webhook_defs webhook_example_defs wenv_retry_def w_delivered_def Let_def)

text \<open>
  Claim C5, amended. When the first delivery of an event looked up and inserted the
  processed-event record without an error, and the lookup succeeds on a later delivery
  of an event with the same id, the later delivery returns before the event switch: the
  world is left exactly as the first delivery left it, and the response is the 200
  acknowledgment with \<^verbatim>\<open>duplicate: true\<close>. This holds for both variants of the
  handler.
\<close>

theorem C5_duplicate_delivery:
  assumes v1: "constructEvent env1 (raw_body req1) (stripe_signature req1) = Inr ev1"
    and ok1: "seen_get_err env1 = None" "seen_set_err env1 = None"
    and run1: "webhook env1 req1 w = (w1, r1) \<or> webhook_uploads env1 req1 w = (w1, r1)"
    and v2: "constructEvent env2 (raw_body req2) (stripe_signature req2) = Inr ev2"
    and same: "ev_id ev2 = ev_id ev1"
    and ok2: "seen_get_err env2 = None"
  shows "stripe_events w1 (ev_id ev1) \<noteq> None \<and>
         webhook env2 req2 w1 = (w1, (200, ReceivedDuplicate)) \<and>
         webhook_uploads env2 req2 w1 = (w1, (200, ReceivedDuplicate))"
proof -
  have rec: "stripe_events w1 (ev_id ev1) \<noteq> None"
    using run1
  proof
    assume "webhook env1 req1 w = (w1, r1)"
    then show ?thesis
      using webhook_with_records[of process_event env1 ev1 req1 w w1 r1, OF _ v1 ok1]
        process_event_events
      by (simp add: webhook_def)
  next
    assume "webhook_uploads env1 req1 w = (w1, r1)"
    then show ?thesis
      using webhook_with_records[of process_event_uploads env1 ev1 req1 w w1 r1, OF _ v1 ok1]
        process_event_uploads_events
      by (simp add: webhook_uploads_def)
  qed
  then have "stripe_events w1 (ev_id ev2) \<noteq> None" using same by simp
  from webhook_with_duplicate[OF v2 ok2 this] rec show ?thesis
    by (simp add: webhook_def webhook_uploads_def)
qed

text \<open>
  The theorem at two deliveries of \<open>ev_updated\<close>.
\<close>

theorem C5_duplicate_delivery_witness:
  "constructEvent (wenv ev_updated) (raw_body wreq) (stripe_signature wreq) = Inr ev_updated \<and>
   seen_get_err (wenv ev_updated) = None \<and> seen_set_err (wenv ev_updated) = None \<and>
   webhook (wenv ev_updated) wreq w_indexed = (w_delivered, (200, Received)) \<and>
   webhook (wenv ev_updated) wreq w_delivered = (w_delivered, (200, ReceivedDuplicate))"
proof -
  have v: "constructEvent (wenv ev_updated) (raw_body wreq) (stripe_signature wreq) = Inr ev_updated"
    and ok: "seen_get_err (wenv ev_updated) = None" "seen_set_err (wenv ev_updated) = None"
    by (simp_all add: wenv_def)
  have r: "snd (webhook (wenv ev_updated) wreq w_indexed) = (200, Received)"
    by (simp add: webhook_defs webhook_example_defs Let_def)
  then have run: "webhook (wenv ev_updated) wreq w_indexed = (w_delivered, (200, Received))"
    unfolding w_delivered_def by (metis prod.collapse)
  from C5_duplicate_delivery[OF v ok disjI1[OF run] v refl ok(1)]
  have "webhook (wenv ev_updated) wreq w_delivered = (w_delivered, (200, ReceivedDuplicate))"
    by simp
  with v ok run show ?thesis by simp
qed

subsection \<open>C6: the plan updates\<close>

text \<open>
  Claim C6 as stated has every checkout-completed event upsert the index and set the
  plan, with \<^verbatim>\<open>Pro\<close> for every unmapped price. Both writes are guarded: without a
  \<^verbatim>\<open>client_reference_id\<close> no user document is written (and the index entry of the
  customer gets a null \<^verbatim>\<open>uid\<close>); without a customer id the index is not written.
  And a price id that names a member inherited by the object literal, such as
  \<^verbatim>\<open>toString\<close>, does not give \<^verbatim>\<open>Pro\<close>: the plan is then not a string, and when
  the store's client refuses it the delivery is answered 500 and no user document is
  written.
\<close>

theorem C6_counterexample:
  "snd (webhook (wenv ev_checkout_anon) wreq w0) = (200, Received) \<and>
   users (fst (webhook (wenv ev_checkout_anon) wreq w0)) = Map.empty \<and>
   stripeCustomers (fst (webhook (wenv ev_checkout_anon) wreq w0)) ''cus_1''
     = Some \<lparr> cd_uid = None \<rparr> \<and>
   snd (webhook (wenv ev_checkout_nocust) wreq w0) = (200, Received) \<and>
   stripeCustomers (fst (webhook (wenv ev_checkout_nocust) wreq w0)) = Map.empty \<and>
   map_option plan (users (fst (webhook (wenv ev_checkout_nocust) wreq w0)) ''u1'')
     = Some (Some (PlanName ''Pro'')) \<and>
   plan_of_price (Some ''toString'') = NotAString \<and>
   snd (webhook wenv_inherited wreq w0) = (500, Send ''server error'') \<and>
   users (fst (webhook wenv_inherited wreq w0)) = Map.empty"
  by (simp add: webhook_defs webhook_example_defs Let_def)

text \<open>
  Claim C6, amended; the Stripe and store calls are taken to return normally. It is
  about the \<^verbatim>\<open>switch\<close> of \<^verbatim>\<open>src/unnamed/part_000\<close>.
  \<^item> The price table is empty: every price id gives the plan \<^verbatim>\<open>Pro\<close>, except the
    names of the members that the object literal inherits, for which the plan is not a
    string.
  \<^item> A checkout-completed event whose price id is not such a name changes the world in
    three places and nowhere else: the retrieval of the session is recorded; when the
    session has a customer id, the index entry of that customer is set to the
    \<^verbatim>\<open>client_reference_id\<close> (the other entries are kept); when the session has a
    \<^verbatim>\<open>client_reference_id\<close>, the plan \<^verbatim>\<open>Pro\<close>, the payment identifiers, the
    status \<^verbatim>\<open>active\<close> and the session id are merged into that user's document (the
    other documents are kept). Without a \<^verbatim>\<open>client_reference_id\<close> no user document
    changes.
  \<^item> A subscription-updated event whose customer the index resolves to a user merges
    into that user's document the plan \<^verbatim>\<open>Pro\<close> when the status is \<^verbatim>\<open>active\<close> or
    \<^verbatim>\<open>trialing\<close> (the price id then not being an inherited name) and \<^verbatim>\<open>NONE\<close>
    otherwise, with the payment identifiers and the status, and changes nothing else.
  \<^item> A subscription-deleted event for such a customer merges the plan \<^verbatim>\<open>NONE\<close>, the
    identifiers and the status \<^verbatim>\<open>canceled\<close>, and changes nothing else.
  \<^item> A subscription event whose customer the index does not resolve (no entry, or an
    entry without a user id) changes nothing, and the handler answers 200 without
    changing any user document.
\<close>

theorem C6_plan_state_machine:
  "(\<forall>p. property_name p \<notin> set Object_prototype_names \<longrightarrow> plan_of_price p = PlanName ''Pro'') \<and>
   (\<forall>p. property_name p \<in> set Object_prototype_names \<longrightarrow> plan_of_price p = NotAString) \<and>
   (\<forall>s full. ev_data ev = CheckoutSessionCompleted s \<and> sessions_retrieve env (s_id s) = Inr full \<and>
        customer_set_err env = None \<and> user_set_err env = None \<and>
        property_name (or_null (line_item_price_id full)) \<notin> set Object_prototype_names \<longrightarrow>
      process_event env ev w =
        (w\<lparr> stripe_retrievals := stripe_retrievals w @ [s_id s],
             stripeCustomers :=
               (case or_null (customer s) of
                  None \<Rightarrow> stripeCustomers w
                | Some c \<Rightarrow> (stripeCustomers w)(c \<mapsto> \<lparr> cd_uid = or_null (client_reference_id s) \<rparr>)),
             users :=
               (case or_null (client_reference_id s) of
                  None \<Rightarrow> users w
                | Some u \<Rightarrow> (users w)(u \<mapsto>
                    (doc_or_empty (users w u))
                      \<lparr> plan := Some (PlanName ''Pro''),
                         stripe_customerId := or_null (customer s),
                         stripe_subscriptionId :=
                           or_null (js_or (full_subscription_id full) (subscription s)),
                         stripe_priceId := or_null (line_item_price_id full),
                         stripe_status := Some ''active'',
                         stripe_lastCheckoutSessionId := Some (s_id s),
                         updatedAt := Some (updatedAt_time env) \<rparr>)) \<rparr>,
         None)) \<and>
   (\<forall>sub d uid. ev_data ev = SubscriptionUpdated sub \<and> customer_get_err env = None \<and>
        stripeCustomers w (sub_customer sub) = Some d \<and> cd_uid d = Some uid \<and> uid \<noteq> [] \<and>
        user_set_err env = None \<and>
        (sub_status sub = ''active'' \<or> sub_status sub = ''trialing'' \<longrightarrow>
           property_name (or_null (js_or (sub_item_price_id sub) (sub_plan_id sub)))
             \<notin> set Object_prototype_names) \<longrightarrow>
      process_event env ev w =
        (w\<lparr>users := (users w)(uid \<mapsto>
            (doc_or_empty (users w uid))
              \<lparr> plan := Some (PlanName (if sub_status sub = ''active'' \<or> sub_status sub = ''trialing''
                                        then ''Pro'' else ''NONE'')),
                 stripe_customerId := Some (sub_customer sub),
                 stripe_subscriptionId := Some (sub_id sub),
                 stripe_priceId := or_null (js_or (sub_item_price_id sub) (sub_plan_id sub)),
                 stripe_status := Some (sub_status sub),
                 updatedAt := Some (updatedAt_time env) \<rparr>)\<rparr>, None)) \<and>
   (\<forall>sub d uid. ev_data ev = SubscriptionDeleted sub \<and> customer_get_err env = None \<and>
        stripeCustomers w (sub_customer sub) = Some d \<and> cd_uid d = Some uid \<and> uid \<noteq> [] \<and>
        user_set_err env = None \<longrightarrow>
      process_event env ev w =
        (w\<lparr>users := (users w)(uid \<mapsto>
            (doc_or_empty (users w uid))
              \<lparr> plan := Some (PlanName ''NONE''),
                 stripe_customerId := Some (sub_customer sub),
                 stripe_subscriptionId := Some (sub_id sub),
                 stripe_status := Some ''canceled'',
                 updatedAt := Some (updatedAt_time env) \<rparr>)\<rparr>, None)) \<and>
   (\<forall>sub. (ev_data ev = SubscriptionUpdated sub \<or> ev_data ev = SubscriptionDeleted sub) \<and>
        customer_get_err env = None \<and>
        (\<forall>d. stripeCustomers w (sub_customer sub) = Some d \<longrightarrow> \<not> truthy (cd_uid d)) \<longrightarrow>
      process_event env ev w = (w, None) \<and>
      (\<forall>req. constructEvent env (raw_body req) (stripe_signature req) = Inr ev \<longrightarrow>
         users (fst (webhook env req w)) = users w \<and> fst (snd (webhook env req w)) = 200))"
proof (intro conjI allI impI)
  fix p assume "property_name p \<notin> set Object_prototype_names"
  then show "plan_of_price p = PlanName ''Pro''" by (rule plan_of_price_Pro)
next
  fix p assume "property_name p \<in> set Object_prototype_names"
  then show "plan_of_price p = NotAString" by (rule plan_of_price_inherited)
next
  fix s full
  assume a: "ev_data ev = CheckoutSessionCompleted s \<and> sessions_retrieve env (s_id s) = Inr full \<and>
        customer_set_err env = None \<and> user_set_err env = None \<and>
        property_name (or_null (line_item_price_id full)) \<notin> set Object_prototype_names"
  then have "process_event env ev w = checkout_completed env s w"
    by (simp add: process_event_def)
  with checkout_completed_ok[of env s full w] a
  show "process_event env ev w =
        (w\<lparr> stripe_retrievals := stripe_retrievals w @ [s_id s],
             stripeCustomers :=
               (case or_null (customer s) of
                  None \<Rightarrow> stripeCustomers w
                | Some c \<Rightarrow> (stripeCustomers w)(c \<mapsto> \<lparr> cd_uid = or_null (client_reference_id s) \<rparr>)),
             users :=
               (case or_null (client_reference_id s) of
                  None \<Rightarrow> users w
                | Some u \<Rightarrow> (users w)(u \<mapsto>
                    (doc_or_empty (users w u))
                      \<lparr> plan := Some (PlanName ''Pro''),
                         stripe_customerId := or_null (customer s),
                         stripe_subscriptionId :=
                           or_null (js_or (full_subscription_id full) (subscription s)),
                         stripe_priceId := or_null (line_item_price_id full),
                         stripe_status := Some ''active'',
                         stripe_lastCheckoutSessionId := Some (s_id s),
                         updatedAt := Some (updatedAt_time env) \<rparr>)) \<rparr>,
         None)"
    by simp
next
  fix sub d uid
  assume a: "ev_data ev = SubscriptionUpdated sub \<and> customer_get_err env = None \<and>
        stripeCustomers w (sub_customer sub) = Some d \<and> cd_uid d = Some uid \<and> uid \<noteq> [] \<and>
        user_set_err env = None \<and>
        (sub_status sub = ''active'' \<or> sub_status sub = ''trialing'' \<longrightarrow>
           property_name (or_null (js_or (sub_item_price_id sub) (sub_plan_id sub)))
             \<notin> set Object_prototype_names)"
  then have l: "lookup_uid env (sub_customer sub) w = Inr (Some uid)"
    using lookup_uid_found by blast
  from a have "process_event env ev w = subscription_updated env sub w"
    by (simp add: process_event_def)
  with subscription_updated_ok[OF l] a
  show "process_event env ev w =
        (w\<lparr>users := (users w)(uid \<mapsto>
            (doc_or_empty (users w uid))
              \<lparr> plan := Some (PlanName (if sub_status sub = ''active'' \<or> sub_status sub = ''trialing''
                                        then ''Pro'' else ''NONE'')),
                 stripe_customerId := Some (sub_customer sub),
                 stripe_subscriptionId := Some (sub_id sub),
                 stripe_priceId := or_null (js_or (sub_item_price_id sub) (sub_plan_id sub)),
                 stripe_status := Some (sub_status sub),
                 updatedAt := Some (updatedAt_time env) \<rparr>)\<rparr>, None)"
    by simp
next
  fix sub d uid
  assume a: "ev_data ev = SubscriptionDeleted sub \<and> customer_get_err env = None \<and>
        stripeCustomers w (sub_customer sub) = Some d \<and> cd_uid d = Some uid \<and> uid \<noteq> [] \<and>
        user_set_err env = None"
  then have l: "lookup_uid env (sub_customer sub) w = Inr (Some uid)"
    using lookup_uid_found by blast
  from a have "process_event env ev w = subscription_deleted env sub w"
    by (simp add: process_event_def)
  with subscription_deleted_ok[OF l] a
  show "process_event env ev w =
        (w\<lparr>users := (users w)(uid \<mapsto>
            (doc_or_empty (users w uid))
              \<lparr> plan := Some (PlanName ''NONE''),
                 stripe_customerId := Some (sub_customer sub),
                 stripe_subscriptionId := Some (sub_id sub),
                 stripe_status := Some ''canceled'',
                 updatedAt := Some (updatedAt_time env) \<rparr>)\<rparr>, None)"
    by simp
next
  fix sub
  assume a: "(ev_data ev = SubscriptionUpdated sub \<or> ev_data ev = SubscriptionDeleted sub) \<and>
        customer_get_err env = None \<and>
        (\<forall>d. stripeCustomers w (sub_customer sub) = Some d \<longrightarrow> \<not> truthy (cd_uid d))"
  then have l: "lookup_uid env (sub_customer sub) w = Inr None"
    using lookup_uid_missing by blast
  with a subscription_unresolved[OF l] show "process_event env ev w = (w, None)"
    by (auto simp: process_event_def)
next
  fix sub and req :: webhook_request
  assume a: "(ev_data ev = SubscriptionUpdated sub \<or> ev_data ev = SubscriptionDeleted sub) \<and>
        customer_get_err env = None \<and>
        (\<forall>d. stripeCustomers w (sub_customer sub) = Some d \<longrightarrow> \<not> truthy (cd_uid d))"
    and v: "constructEvent env (raw_body req) (stripe_signature req) = Inr ev"
  then have l: "lookup_uid env (sub_customer sub) w = Inr None"
    using lookup_uid_missing by blast
  from webhook_unresolved[of env req ev sub w] v l a
  show "users (fst (webhook env req w)) = users w" by blast
next
  fix sub and req :: webhook_request
  assume a: "(ev_data ev = SubscriptionUpdated sub \<or> ev_data ev = SubscriptionDeleted sub) \<and>
        customer_get_err env = None \<and>
        (\<forall>d. stripeCustomers w (sub_customer sub) = Some d \<longrightarrow> \<not> truthy (cd_uid d))"
    and v: "constructEvent env (raw_body req) (stripe_signature req) = Inr ev"
  then have l: "lookup_uid env (sub_customer sub) w = Inr None"
    using lookup_uid_missing by blast
  from webhook_unresolved[of env req ev sub w] v l a
  show "fst (snd (webhook env req w)) = 200" by blast
qed

text \<open>
  The theorem at a checkout event of \<open>u1\<close> on a world whose index already holds
  another customer, at an update and a deletion of the subscription of a resolved
  customer, and at an update for an unresolved customer.
\<close>

theorem C6_plan_state_machine_witness:
  "ev_data ev_checkout = CheckoutSessionCompleted session1 \<and>
   sessions_retrieve (wenv ev_checkout) (s_id session1) = Inr full1 \<and>
   property_name (or_null (line_item_price_id full1)) \<notin> set Object_prototype_names \<and>
   stripeCustomers (fst (process_event (wenv ev_checkout) ev_checkout w_other)) ''cus_1''
     = Some \<lparr> cd_uid = Some ''u1'' \<rparr> \<and>
   stripeCustomers (fst (process_event (wenv ev_checkout) ev_checkout w_other)) ''cus_9''
     = Some \<lparr> cd_uid = Some ''u9'' \<rparr> \<and>
   users (fst (process_event (wenv ev_checkout) ev_checkout w_other)) ''u1''
     = Some (empty_doc\<lparr> plan := Some (PlanName ''Pro''), stripe_customerId := Some ''cus_1'',
               stripe_subscriptionId := Some ''sub_1'', stripe_priceId := Some ''price_1'',
               stripe_status := Some ''active'', stripe_lastCheckoutSessionId := Some ''cs_1'',
               updatedAt := Some 5001 \<rparr>) \<and>
   ev_data ev_updated = SubscriptionUpdated sub1 \<and>
   stripeCustomers w_indexed (sub_customer sub1) = Some \<lparr> cd_uid = Some ''u1'' \<rparr> \<and>
   users (fst (process_event (wenv ev_updated) ev_updated w_indexed)) ''u1''
     = Some (empty_doc\<lparr> plan := Some (PlanName ''Pro''), stripe_customerId := Some ''cus_1'',
               stripe_subscriptionId := Some ''sub_1'', stripe_priceId := Some ''price_1'',
               stripe_status := Some ''active'', updatedAt := Some 5001 \<rparr>) \<and>
   ev_data ev_deleted = SubscriptionDeleted sub1 \<and>
   users (fst (process_event (wenv ev_deleted) ev_deleted w_indexed)) ''u1''
     = Some (empty_doc\<lparr> plan := Some (PlanName ''NONE''), stripe_customerId := Some ''cus_1'',
               stripe_subscriptionId := Some ''sub_1'', stripe_status := Some ''canceled'',
               updatedAt := Some 5001 \<rparr>) \<and>
   stripeCustomers w0 (sub_customer sub1) = None \<and>
   process_event (wenv ev_updated) ev_updated w0 = (w0, None) \<and>
   users (fst (webhook (wenv ev_updated) wreq w0)) = users w0 \<and>
   fst (snd (webhook (wenv ev_updated) wreq w0)) = 200"
proof -
  have c1: "ev_data ev_checkout = CheckoutSessionCompleted session1"
    and c2: "sessions_retrieve (wenv ev_checkout) (s_id session1) = Inr full1"
    and c3: "customer_set_err (wenv ev_checkout) = None" "user_set_err (wenv ev_checkout) = None"
    and c4: "property_name (or_null (line_item_price_id full1)) \<notin> set Object_prototype_names"
    by (simp_all add: ev_checkout_def wenv_def session1_def full1_def property_name_def
          Object_prototype_names_def or_null_def truthy_def)
  note t1 = C6_plan_state_machine[where env="wenv ev_checkout" and ev=ev_checkout and w=w_other]
  from t1[THEN conjunct2, THEN conjunct2, THEN conjunct1, rule_format, of session1 full1] c1 c2 c3 c4
  have p1: "process_event (wenv ev_checkout) ev_checkout w_other =
        (w_other\<lparr> stripe_retrievals := stripe_retrievals w_other @ [s_id session1],
             stripeCustomers :=
               (case or_null (customer session1) of
                  None \<Rightarrow> stripeCustomers w_other
                | Some c \<Rightarrow> (stripeCustomers w_other)(c \<mapsto>
                    \<lparr> cd_uid = or_null (client_reference_id session1) \<rparr>)),
             users :=
               (case or_null (client_reference_id session1) of
                  None \<Rightarrow> users w_other
                | Some u \<Rightarrow> (users w_other)(u \<mapsto>
                    (doc_or_empty (users w_other u))
                      \<lparr> plan := Some (PlanName ''Pro''),
                         stripe_customerId := or_null (customer session1),
                         stripe_subscriptionId :=
                           or_null (js_or (full_subscription_id full1) (subscription session1)),
                         stripe_priceId := or_null (line_item_price_id full1),
                         stripe_status := Some ''active'',
                         stripe_lastCheckoutSessionId := Some (s_id session1),
                         updatedAt := Some (updatedAt_time (wenv ev_checkout)) \<rparr>)) \<rparr>,
         None)"
    by simp
  have a1: "stripeCustomers (fst (process_event (wenv ev_checkout) ev_checkout w_other)) ''cus_1''
     = Some \<lparr> cd_uid = Some ''u1'' \<rparr>"
    and a1': "stripeCustomers (fst (process_event (wenv ev_checkout) ev_checkout w_other)) ''cus_9''
     = Some \<lparr> cd_uid = Some ''u9'' \<rparr>"
    and a2: "users (fst (process_event (wenv ev_checkout) ev_checkout w_other)) ''u1''
     = Some (empty_doc\<lparr> plan := Some (PlanName ''Pro''), stripe_customerId := Some ''cus_1'',
               stripe_subscriptionId := Some ''sub_1'', stripe_priceId := Some ''price_1'',
               stripe_status := Some ''active'', stripe_lastCheckoutSessionId := Some ''cs_1'',
               updatedAt := Some 5001 \<rparr>)"
    unfolding p1
    by (simp_all add: or_null_def js_or_def truthy_def session1_def full1_def wenv_def
          w_other_def w0_def doc_or_empty_def)
  have s1: "ev_data ev_updated = SubscriptionUpdated sub1"
    and s2: "ev_data ev_deleted = SubscriptionDeleted sub1"
    and s3: "customer_get_err (wenv ev_updated) = None" "user_set_err (wenv ev_updated) = None"
      "customer_get_err (wenv ev_deleted) = None" "user_set_err (wenv ev_deleted) = None"
    and s4: "stripeCustomers w_indexed (sub_customer sub1) = Some \<lparr> cd_uid = Some ''u1'' \<rparr>"
      "cd_uid \<lparr> cd_uid = Some ''u1'' \<rparr> = Some ''u1''" "''u1'' \<noteq> []"
    and s5: "stripeCustomers w0 (sub_customer sub1) = None"
    and s6: "constructEvent (wenv ev_updated) (raw_body wreq) (stripe_signature wreq) = Inr ev_updated"
    and s7: "property_name (or_null (js_or (sub_item_price_id sub1) (sub_plan_id sub1)))
             \<notin> set Object_prototype_names"
    by (simp_all add: ev_updated_def ev_deleted_def wenv_def sub1_def w_indexed_def w0_def
          property_name_def Object_prototype_names_def or_null_def js_or_def truthy_def)
  note t2 = C6_plan_state_machine[where env="wenv ev_updated" and ev=ev_updated and w=w_indexed]
  from t2[THEN conjunct2, THEN conjunct2, THEN conjunct2, THEN conjunct1, rule_format,
      of sub1 "\<lparr> cd_uid = Some ''u1'' \<rparr>" "''u1''"] s1 s3 s4 s7
  have a3: "users (fst (process_event (wenv ev_updated) ev_updated w_indexed)) ''u1''
     = Some (empty_doc\<lparr> plan := Some (PlanName ''Pro''), stripe_customerId := Some ''cus_1'',
               stripe_subscriptionId := Some ''sub_1'', stripe_priceId := Some ''price_1'',
               stripe_status := Some ''active'', updatedAt := Some 5001 \<rparr>)"
    by (simp add: or_null_def js_or_def truthy_def sub1_def wenv_def w_indexed_def w0_def
          doc_or_empty_def)
  note t3 = C6_plan_state_machine[where env="wenv ev_deleted" and ev=ev_deleted and w=w_indexed]
  from t3[THEN conjunct2, THEN conjunct2, THEN conjunct2, THEN conjunct2, THEN conjunct1,
      rule_format, of sub1 "\<lparr> cd_uid = Some ''u1'' \<rparr>" "''u1''"] s2 s3 s4
  have a4: "users (fst (process_event (wenv ev_deleted) ev_deleted w_indexed)) ''u1''
     = Some (empty_doc\<lparr> plan := Some (PlanName ''NONE''), stripe_customerId := Some ''cus_1'',
               stripe_subscriptionId := Some ''sub_1'', stripe_status := Some ''canceled'',
               updatedAt := Some 5001 \<rparr>)"
    by (simp add: sub1_def wenv_def w_indexed_def w0_def doc_or_empty_def)
  note t4 = C6_plan_state_machine[where env="wenv ev_updated" and ev=ev_updated and w=w0]
  from t4[THEN conjunct2, THEN conjunct2, THEN conjunct2, THEN conjunct2, THEN conjunct2,
      rule_format, of sub1] s1 s3 s5
  have a5: "process_event (wenv ev_updated) ev_updated w0 = (w0, None)"
    and a6: "\<forall>req. constructEvent (wenv ev_updated) (raw_body req) (stripe_signature req) = Inr ev_updated \<longrightarrow>
         users (fst (webhook (wenv ev_updated) req w0)) = users w0 \<and>
         fst (snd (webhook (wenv ev_updated) req w0)) = 200"
    by simp_all
  from a6 s6 have a7: "users (fst (webhook (wenv ev_updated) wreq w0)) = users w0"
    "fst (snd (webhook (wenv ev_updated) wreq w0)) = 200"
    by blast+
  show ?thesis using c1 c2 c4 a1 a1' a2 s1 s4 a3 s2 a4 s5 a5 a7 by simp
qed

subsection \<open>C7: signature verification\<close>

text \<open>
  Claim C7 as stated has the rejection carry a generic message only. The handler sends
  \<^verbatim>\<open>Webhook Error: \<close> followed by the message of the error that verification threw:
  two failures of verification with different messages get different bodies.
\<close>

theorem C7_counterexample:
  "snd (webhook (wenv_bad ''No signatures found matching the expected signature for payload'') wreq w0)
     = (400, Send ''Webhook Error: No signatures found matching the expected signature for payload'') \<and>
   snd (webhook (wenv_bad ''Timestamp outside the tolerance zone'') wreq w0)
     = (400, Send ''Webhook Error: Timestamp outside the tolerance zone'') \<and>
   snd (webhook (wenv_bad ''No signatures found matching the expected signature for payload'') wreq w0)
     \<noteq> snd (webhook (wenv_bad ''Timestamp outside the tolerance zone'') wreq w0)"
  by (simp add: webhook_def webhook_with_def wenv_bad_def wenv_def wreq_def)

text \<open>
  Claim C7, amended. When verification throws, the handler answers 400, the body is
  \<^verbatim>\<open>Webhook Error: \<close> followed by the message of the thrown error, and the world is
  unchanged. Conversely, whenever the handler changes the world or answers anything but
  400, verification has returned an event: nothing is processed before it.
\<close>

theorem C7_signature_verification:
  "(\<forall>msg. constructEvent env (raw_body req) (stripe_signature req) = Inl msg \<longrightarrow>
      webhook env req w = (w, (400, Send (''Webhook Error: '' @ msg)))) \<and>
   (\<forall>w' r. webhook env req w = (w', r) \<and> (w' \<noteq> w \<or> fst r \<noteq> 400) \<longrightarrow>
      (\<exists>ev. constructEvent env (raw_body req) (stripe_signature req) = Inr ev))"
  by (cases "constructEvent env (raw_body req) (stripe_signature req)")
     (auto simp: webhook_def webhook_with_def)

text \<open>
  The theorem at a delivery that fails verification and at one that passes.
\<close>

theorem C7_signature_verification_witness:
  "constructEvent (wenv_bad ''bad signature'') (raw_body wreq) (stripe_signature wreq)
     = Inl ''bad signature'' \<and>
   webhook (wenv_bad ''bad signature'') wreq w_indexed
     = (w_indexed, (400, Send ''Webhook Error: bad signature'')) \<and>
   fst (snd (webhook (wenv ev_updated) wreq w_indexed)) = 200 \<and>
   constructEvent (wenv ev_updated) (raw_body wreq) (stripe_signature wreq) = Inr ev_updated"
proof -
  have a: "constructEvent (wenv_bad ''bad signature'') (raw_body wreq) (stripe_signature wreq)
     = Inl ''bad signature''"
    by (simp add: wenv_bad_def wenv_def)
  have b: "fst (snd (webhook (wenv ev_updated) wreq w_indexed)) = 200"
    by (simp add: webhook_defs webhook_example_defs Let_def)
  have c: "constructEvent (wenv ev_updated) (raw_body wreq) (stripe_signature wreq) = Inr ev_updated"
    by (simp add: wenv_def)
  from C7_signature_verification[of "wenv_bad ''bad signature''" wreq w_indexed] a
  have "webhook (wenv_bad ''bad signature'') wreq w_indexed
     = (w_indexed, (400, Send (''Webhook Error: '' @ ''bad signature'')))"
    by blast
  with a b c show ?thesis by simp
qed

end
